theory Spec2Isabelle
  imports Complex_Main
begin

section \<open>Tokens and the token list (package atoken)\<close>

text \<open>
  Go strings and rune slices are modelled as lists of code points; a code point
  (Go's \<open>rune\<close>, an \<open>int32\<close>) is an \<open>int\<close>.  String literals of the
  source are written with \<open>str\<close>.  Output on standard output (\<open>fmt.Println\<close>)
  is not part of the model; the dereferences its arguments perform are.
\<close>

type_synonym rune = int
type_synonym gostring = "rune list"

definition rn :: "char \<Rightarrow> rune" where
  "rn c = of_char c"

definition str :: "string \<Rightarrow> gostring" where
  "str s = map rn s"

record AToken =
  Line :: int
  Column :: int
  Value :: gostring
  Type :: int

record ALexError =
  Line :: int
  Column :: int
  error_info :: gostring

text \<open>
  \<open>token_list\<close> and \<open>Error_list\<close> are \<open>container/list\<close> lists that only grow
  at the back.  An element pointer (\<open>*list.Element\<close>) is the index of the element,
  \<open>None\<close> is the nil pointer.
\<close>

record ATokenList =
  token_list :: "AToken list"
  Line :: int
  Column :: int
  Count :: int
  Error_list :: "ALexError list"
  current_iterator :: "nat option"

text \<open>
  Ways in which the process stops: a run-time panic of Go, or \<open>os.Exit(1)\<close> after
  a diagnostic.
\<close>

record AParserError =
  Line :: int
  Column :: int
  File :: gostring
  error_info :: gostring

datatype abort =
    Panic_NilPointer
  | Panic_IndexOutOfRange
  | Panic_DivisionByZero
  | Exit_LexError "ALexError list"
  | Exit_ParserError "AParserError list"
  | Exit_TypeError_Number_Bool
  | Exit_TypeError_Number_String
  | Exit_TypeError_Number_Char

subsection \<open>The list operations of container/list used by the cursor\<close>

definition list_Front :: "'a list \<Rightarrow> nat option" where
  "list_Front l = (if l = [] then None else Some 0)"

definition list_Back :: "'a list \<Rightarrow> nat option" where
  "list_Back l = (if l = [] then None else Some (length l - 1))"

definition elem_Next :: "'a list \<Rightarrow> nat \<Rightarrow> nat option" where
  "elem_Next l i = (if i + 1 < length l then Some (i + 1) else None)"

definition elem_Prev :: "'a list \<Rightarrow> nat \<Rightarrow> nat option" where
  "elem_Prev l i = (if 0 < i then Some (i - 1) else None)"

subsection \<open>GetToken, BackToken, IsEnd\<close>

definition GetToken :: "ATokenList \<Rightarrow> AToken option \<times> ATokenList" where
  "GetToken s =
     (case current_iterator s of
        None \<Rightarrow>
          (None, s\<lparr>current_iterator := list_Back (token_list s), Count := Count s + 1\<rparr>)
      | Some i \<Rightarrow>
          (Some (token_list s ! i),
           s\<lparr>current_iterator := elem_Next (token_list s) i, Count := Count s + 1\<rparr>))"

definition BackToken :: "ATokenList \<Rightarrow> abort + (AToken \<times> ATokenList)" where
  "BackToken s =
     (case current_iterator s of
        None \<Rightarrow>
          (case list_Back (token_list s) of
             None \<Rightarrow> Inl Panic_NilPointer
           | Some b \<Rightarrow>
               (case elem_Prev (token_list s) b of
                  None \<Rightarrow> Inl Panic_NilPointer
                | Some j \<Rightarrow> Inr (token_list s ! j, s\<lparr>current_iterator := Some j\<rparr>)))
      | Some i \<Rightarrow>
          (case elem_Prev (token_list s) i of
             None \<Rightarrow> Inl Panic_NilPointer
           | Some j \<Rightarrow> Inr (token_list s ! j, s\<lparr>current_iterator := Some j\<rparr>)))"

definition IsEnd :: "ATokenList \<Rightarrow> abort + bool" where
  "IsEnd s =
     (case current_iterator s of
        None \<Rightarrow> Inl Panic_NilPointer
      | Some i \<Rightarrow>
          if elem_Next (token_list s) i = list_Back (token_list s) then Inr True
          else if length (token_list s) \<le> 3 then Inr True
          else Inr False)"

subsection \<open>Token types (atokentype.go)\<close>

definition atoken_NUM :: int where "atoken_NUM = 1"
definition atoken_WORD :: int where "atoken_WORD = 2"
definition atoken_ADD :: int where "atoken_ADD = 3"
definition atoken_SUB :: int where "atoken_SUB = 4"
definition atoken_MUL :: int where "atoken_MUL = 5"
definition atoken_DIV :: int where "atoken_DIV = 6"
definition atoken_ADDSELF :: int where "atoken_ADDSELF = 7"
definition atoken_SUBSELF :: int where "atoken_SUBSELF = 8"
definition atoken_POWER :: int where "atoken_POWER = 9"
definition atoken_NOT :: int where "atoken_NOT = 10"
definition atoken_CASTING :: int where "atoken_CASTING = 11"
definition atoken_QUOTE :: int where "atoken_QUOTE = 12"
definition atoken_GT :: int where "atoken_GT = 13"
definition atoken_LT :: int where "atoken_LT = 14"
definition atoken_GTEQ :: int where "atoken_GTEQ = 15"
definition atoken_LTEQ :: int where "atoken_LTEQ = 16"
definition atoken_EQ :: int where "atoken_EQ = 17"
definition atoken_NOEQ :: int where "atoken_NOEQ = 18"
definition atoken_AND :: int where "atoken_AND = 19"
definition atoken_OR :: int where "atoken_OR = 20"
definition atoken_ALSO :: int where "atoken_ALSO = 21"
definition atoken_PERHAPS :: int where "atoken_PERHAPS = 22"
definition atoken_ESCAPE :: int where "atoken_ESCAPE = 23"
definition atoken_COMPOSITE_ADD :: int where "atoken_COMPOSITE_ADD = 24"
definition atoken_COMPOSITE_SUB :: int where "atoken_COMPOSITE_SUB = 25"
definition atoken_COMPOSITE_MUL :: int where "atoken_COMPOSITE_MUL = 26"
definition atoken_COMPOSITE_DIV :: int where "atoken_COMPOSITE_DIV = 27"
definition atoken_MOD :: int where "atoken_MOD = 28"
definition atoken_RAND :: int where "atoken_RAND = 29"
definition atoken_FUNC :: int where "atoken_FUNC = 30"
definition atoken_IF :: int where "atoken_IF = 31"
definition atoken_ELSE :: int where "atoken_ELSE = 32"
definition atoken_NEW :: int where "atoken_NEW = 33"
definition atoken_LBRACE :: int where "atoken_LBRACE = 34"
definition atoken_RBRACE :: int where "atoken_RBRACE = 35"
definition atoken_LBRACKET :: int where "atoken_LBRACKET = 36"
definition atoken_RBRACKET :: int where "atoken_RBRACKET = 37"
definition atoken_LP :: int where "atoken_LP = 38"
definition atoken_RP :: int where "atoken_RP = 39"
definition atoken_NUMBER :: int where "atoken_NUMBER = 40"
definition atoken_INT :: int where "atoken_INT = 41"
definition atoken_INT64 :: int where "atoken_INT64 = 42"
definition atoken_CHAR :: int where "atoken_CHAR = 43"
definition atoken_STRING :: int where "atoken_STRING = 44"
definition atoken_LIST :: int where "atoken_LIST = 45"
definition atoken_MAP :: int where "atoken_MAP = 46"
definition atoken_VAR :: int where "atoken_VAR = 47"
definition atoken_FOR :: int where "atoken_FOR = 48"
definition atoken_BREAK :: int where "atoken_BREAK = 49"
definition atoken_COMMA :: int where "atoken_COMMA = 50"
definition atoken_COLON :: int where "atoken_COLON = 51"
definition atoken_SWITCH :: int where "atoken_SWITCH = 52"
definition atoken_CASE :: int where "atoken_CASE = 53"
definition atoken_ELSEIF :: int where "atoken_ELSEIF = 54"
definition atoken_SEMICOLON :: int where "atoken_SEMICOLON = 55"
definition atoken_ASSIGMENT :: int where "atoken_ASSIGMENT = 56"
definition atoken_EOF :: int where "atoken_EOF = 57"
definition atoken_RETURN :: int where "atoken_RETURN = 58"
definition atoken_TRUE :: int where "atoken_TRUE = 59"
definition atoken_FALSE :: int where "atoken_FALSE = 60"
definition atoken_CONTINUE :: int where "atoken_CONTINUE = 61"

lemmas atoken_defs = atoken_NUM_def atoken_WORD_def atoken_ADD_def atoken_SUB_def
  atoken_MUL_def atoken_DIV_def atoken_ADDSELF_def atoken_SUBSELF_def atoken_POWER_def
  atoken_NOT_def atoken_CASTING_def atoken_QUOTE_def atoken_GT_def atoken_LT_def
  atoken_GTEQ_def atoken_LTEQ_def atoken_EQ_def atoken_NOEQ_def atoken_AND_def
  atoken_OR_def atoken_ALSO_def atoken_PERHAPS_def atoken_ESCAPE_def
  atoken_COMPOSITE_ADD_def atoken_COMPOSITE_SUB_def atoken_COMPOSITE_MUL_def
  atoken_COMPOSITE_DIV_def atoken_MOD_def atoken_RAND_def atoken_FUNC_def atoken_IF_def
  atoken_ELSE_def atoken_NEW_def atoken_LBRACE_def atoken_RBRACE_def atoken_LBRACKET_def
  atoken_RBRACKET_def atoken_LP_def atoken_RP_def atoken_NUMBER_def atoken_INT_def
  atoken_INT64_def atoken_CHAR_def atoken_STRING_def atoken_LIST_def atoken_MAP_def
  atoken_VAR_def atoken_FOR_def atoken_BREAK_def atoken_COMMA_def atoken_COLON_def
  atoken_SWITCH_def atoken_CASE_def atoken_ELSEIF_def atoken_SEMICOLON_def
  atoken_ASSIGMENT_def atoken_EOF_def atoken_RETURN_def atoken_TRUE_def atoken_FALSE_def
  atoken_CONTINUE_def






section \<open>The tokenizer (atoken.go)\<close>

text \<open>
  A result is \<open>Inl\<close> of the way the process stopped or \<open>Inr\<close> of the value.
  Reading \<open>source[index]\<close> outside the slice is Go's index-out-of-range panic.
\<close>

definition bind_abort :: "abort + 'a \<Rightarrow> ('a \<Rightarrow> abort + 'b) \<Rightarrow> abort + 'b" where
  "bind_abort m f = (case m of Inl e \<Rightarrow> Inl e | Inr x \<Rightarrow> f x)"

definition src_at :: "rune list \<Rightarrow> int \<Rightarrow> abort + rune" where
  "src_at source index =
     (if 0 \<le> index \<and> index < int (length source) then Inr (source ! nat index)
      else Inl Panic_IndexOutOfRange)"

definition PushBack_token :: "ATokenList \<Rightarrow> gostring \<Rightarrow> int \<Rightarrow> ATokenList" where
  "PushBack_token s v t =
     s\<lparr>token_list := token_list s @
        [\<lparr>AToken.Line = ATokenList.Line s, AToken.Column = ATokenList.Column s,
          Value = v, Type = t\<rparr>]\<rparr>"

definition PushBack_error :: "ATokenList \<Rightarrow> gostring \<Rightarrow> ATokenList" where
  "PushBack_error s msg =
     s\<lparr>Error_list := Error_list s @
        [\<lparr>ALexError.Line = ATokenList.Line s, ALexError.Column = ATokenList.Column s,
          error_info = msg\<rparr>]\<rparr>"

text \<open>
  \<open>judge_word\<close>: the loop over the keyword's characters, \<open>k\<close> of them matched so
  far (the keywords are ASCII, so the byte offset \<open>i\<close> of the source's \<open>range\<close> loop
  is that count).  The result is the boolean and the new value of \<open>*index\<close>.
\<close>

fun judge_word_from :: "int \<Rightarrow> gostring \<Rightarrow> int \<Rightarrow> rune list \<Rightarrow> abort + (bool \<times> int)" where
  "judge_word_from k [] index source = Inr (True, index - 1)"
| "judge_word_from k (v # vs) index source =
     (if index < int (length source) then
        bind_abort (src_at source index) (\<lambda>c.
          if c = v then judge_word_from (k + 1) vs (index + 1) source
          else Inr (False, index - k))
      else Inr (False, index - k))"

definition judge_word :: "gostring \<Rightarrow> int \<Rightarrow> rune list \<Rightarrow> abort + (bool \<times> int)" where
  "judge_word data index source = judge_word_from 0 data index source"

definition judge_symbol :: "rune \<Rightarrow> bool" where
  "judge_symbol ch =
     ((ch \<ge> rn CHR ''A'' \<and> ch \<le> rn CHR ''Z'') \<or> (ch \<ge> rn CHR ''a'' \<and> ch \<le> rn CHR ''z'')
      \<or> ch = rn CHR ''_'' \<or> (ch \<ge> rn CHR ''0'' \<and> ch \<le> rn CHR ''9''))"

function judge_other_loop ::
  "rune list \<Rightarrow> int \<Rightarrow> rune list \<Rightarrow> ATokenList \<Rightarrow> abort + (int \<times> ATokenList)" where
  "judge_other_loop tmp index source s =
     (if index \<ge> int (length source) then Inr (index, PushBack_token s tmp atoken_WORD)
      else
        (case src_at source index of
           Inl e \<Rightarrow> Inl e
         | Inr c \<Rightarrow>
             if judge_symbol c then judge_other_loop (tmp @ [c]) (index + 1) source s
             else Inr (index - 1, PushBack_token s tmp atoken_WORD)))"
  by pat_completeness auto
termination
  by (relation "measure (\<lambda>(tmp, index, source, s). nat (int (length source) - index))") auto

definition judge_other :: "int \<Rightarrow> rune list \<Rightarrow> ATokenList \<Rightarrow> abort + (int \<times> ATokenList)" where
  "judge_other index source s = judge_other_loop [] index source s"

function judge_space :: "int \<Rightarrow> rune list \<Rightarrow> abort + int" where
  "judge_space index source =
     (if index < int (length source) then
        (case src_at source index of
           Inl e \<Rightarrow> Inl e
         | Inr c \<Rightarrow>
             if c = rn CHR '' '' \<or> c = 9 \<or> c = 11 then judge_space (index + 1) source
             else Inr (index - 1))
      else Inr (index - 1))"
  by pat_completeness auto
termination
  by (relation "measure (\<lambda>(index, source). nat (int (length source) - index))") auto

function judge_number_loop ::
  "rune list \<Rightarrow> int \<Rightarrow> int \<Rightarrow> rune list \<Rightarrow> ATokenList \<Rightarrow> abort + (int \<times> ATokenList)" where
  "judge_number_loop tmp dot_count index source s =
     (if index \<ge> int (length source) then Inr (index, PushBack_token s tmp atoken_NUMBER)
      else
        (case src_at source index of
           Inl e \<Rightarrow> Inl e
         | Inr c \<Rightarrow>
             if c \<ge> rn CHR ''0'' \<and> c \<le> rn CHR ''9''
             then judge_number_loop (tmp @ [c]) dot_count (index + 1) source s
             else if c = rn CHR ''.'' then
               (if dot_count > 1
                then Inr (index - 1,
                       PushBack_token (PushBack_error s (str ''illegal number'')) tmp atoken_NUMBER)
                else judge_number_loop (tmp @ [c]) (dot_count + 1) (index + 1) source s)
             else Inr (index - 1, PushBack_token s tmp atoken_NUMBER)))"
  by pat_completeness auto
termination
  by (relation "measure (\<lambda>(tmp, dot_count, index, source, s). nat (int (length source) - index))")
     auto

definition judge_number :: "int \<Rightarrow> rune list \<Rightarrow> ATokenList \<Rightarrow> abort + (int \<times> ATokenList)" where
  "judge_number index source s = judge_number_loop [] 0 index source s"

text \<open>The message \<open>lose a '"'\<close> of an unterminated string literal.\<close>

definition lose_a_quote :: gostring where
  "lose_a_quote = str ''lose a '' @ [39, 34, 39]"

function judge_string_loop ::
  "rune list \<Rightarrow> int \<Rightarrow> int \<Rightarrow> rune list \<Rightarrow> ATokenList \<Rightarrow> abort + (int \<times> ATokenList)" where
  "judge_string_loop tmp count index source s =
     (if index \<ge> int (length source) then
        (if count < 2
         then Inr (index, PushBack_token (PushBack_error s lose_a_quote) tmp atoken_STRING)
         else Inr (index, PushBack_token s tmp atoken_STRING))
      else if count \<ge> 2 then Inr (index - 1, PushBack_token s tmp atoken_STRING)
      else
        (case src_at source index of
           Inl e \<Rightarrow> Inl e
         | Inr c \<Rightarrow>
             if c = 34 then judge_string_loop tmp (count + 1) (index + 1) source s
             else if c = 92 then
               (case src_at source (index + 1) of
                  Inl e \<Rightarrow> Inl e
                | Inr d \<Rightarrow> judge_string_loop (tmp @ [d]) count (index + 1 + 1) source s)
             else judge_string_loop (tmp @ [c]) count (index + 1) source s))"
  by pat_completeness auto
termination
  by (relation "measure (\<lambda>(tmp, count, index, source, s). nat (int (length source) - index))")
     auto

definition judge_string :: "int \<Rightarrow> rune list \<Rightarrow> ATokenList \<Rightarrow> abort + (int \<times> ATokenList)" where
  "judge_string index source s = judge_string_loop [] 0 index source s"

text \<open>
  The equations of the four loops rewrite a call by its body, which contains the loop
  again; they are used by name.
\<close>

declare judge_other_loop.simps [simp del] judge_space.simps [simp del]
  judge_number_loop.simps [simp del] judge_string_loop.simps [simp del]

text \<open>
  The keyword cases of \<open>ReadString\<close> try their keywords with \<open>judge_word\<close> in the
  order of the source and fall back to \<open>judge_other\<close>; the index a failed
  \<open>judge_word\<close> leaves is the one the next attempt starts from.
\<close>

fun try_keywords ::
  "(string \<times> int) list \<Rightarrow> int \<Rightarrow> rune list \<Rightarrow> ATokenList \<Rightarrow> abort + (int \<times> ATokenList)" where
  "try_keywords [] i data s = judge_other i data s"
| "try_keywords ((kw, ty) # rest) i data s =
     bind_abort (judge_word (str kw) i data) (\<lambda>(ok, i').
       if ok then Inr (i', PushBack_token s (str kw) ty)
       else try_keywords rest i' data s)"

text \<open>The message \<open>"illegal token '" + string(data[i]) + "'"\<close>.\<close>

definition illegal_token :: "rune \<Rightarrow> gostring" where
  "illegal_token c = str ''illegal token '' @ [39] @ [c] @ [39]"

text \<open>
  One pass through the \<open>switch\<close> of \<open>ReadString\<close> at index \<open>i\<close>: the result is
  the value of \<open>i\<close> and the token list state when the switch is left.  Code points
  written as numbers: 9 tab, 10 line feed, 13 carriage return, 34 the double quote,
  96 the backquote.
\<close>

definition ReadString_switch :: "rune list \<Rightarrow> int \<Rightarrow> ATokenList \<Rightarrow> abort + (int \<times> ATokenList)" where
  "ReadString_switch data i s =
     bind_abort (src_at data i) (\<lambda>c.
       if c = rn CHR ''f'' then
         try_keywords [(''func'', atoken_FUNC), (''for'', atoken_FOR), (''false'', atoken_FALSE)] i data s
       else if c = rn CHR ''t'' then try_keywords [(''true'', atoken_TRUE)] i data s
       else if c = rn CHR ''r'' then try_keywords [(''return'', atoken_RETURN)] i data s
       else if c = rn CHR ''i'' then
         bind_abort (judge_word (str ''if'') i data) (\<lambda>(ok, i').
           if ok then bind_abort (src_at data i') (\<lambda>_. Inr (i', PushBack_token s (str ''if'') atoken_IF))
           else judge_other i' data s)
       else if c = rn CHR ''e'' then
         try_keywords [(''elseif'', atoken_ELSEIF), (''else'', atoken_ELSE)] i data s
       else if c = rn CHR ''n'' then
         try_keywords [(''new'', atoken_NEW), (''number'', atoken_NUMBER)] i data s
       else if c = rn CHR ''l'' then try_keywords [(''list'', atoken_LIST)] i data s
       else if c = rn CHR ''m'' then try_keywords [(''map'', atoken_MAP)] i data s
       else if c = rn CHR ''v'' then try_keywords [(''var'', atoken_VAR)] i data s
       else if c = rn CHR ''b'' then try_keywords [(''break'', atoken_BREAK)] i data s
       else if c = rn CHR ''s'' then try_keywords [(''switch'', atoken_SWITCH)] i data s
       else if c = rn CHR ''c'' then
         try_keywords [(''case'', atoken_CASE), (''continue'', atoken_CONTINUE)] i data s
       else if c = rn CHR '';'' then Inr (i, PushBack_token s (str '';'') atoken_SEMICOLON)
       else if c = rn CHR ''{'' then Inr (i, PushBack_token s (str ''{'') atoken_LBRACE)
       else if c = rn CHR ''}'' then Inr (i, PushBack_token s (str ''}'') atoken_RBRACE)
       else if c = rn CHR ''['' then Inr (i, PushBack_token s (str ''['') atoken_LBRACKET)
       else if c = rn CHR '']'' then Inr (i, PushBack_token s (str ''['') atoken_RBRACKET)
       else if c = rn CHR ''('' then Inr (i, PushBack_token s (str ''('') atoken_LP)
       else if c = rn CHR '')'' then Inr (i, PushBack_token s (str '')'') atoken_RP)
       else if c = rn CHR '','' then Inr (i, PushBack_token s (str '','') atoken_COMMA)
       else if c = rn CHR '':'' then Inr (i, PushBack_token s (str '':'') atoken_COLON)
       else if c = rn CHR ''+'' then
         (let i = i + 1 in
          if i \<ge> int (length data) then Inr (i, s)
          else bind_abort (src_at data i) (\<lambda>d.
            if d = rn CHR ''+'' then Inr (i, PushBack_token s (str ''++'') atoken_ADDSELF)
            else if d = rn CHR ''='' then Inr (i, PushBack_token s (str ''+='') atoken_COMPOSITE_ADD)
            else Inr (i - 1, PushBack_token s (str ''+'') atoken_ADD)))
       else if c = rn CHR ''-'' then
         (let i = i + 1 in
          if i \<ge> int (length data) then Inr (i, s)
          else bind_abort (src_at data i) (\<lambda>d.
            if d = rn CHR ''-'' then Inr (i, PushBack_token s (str ''--'') atoken_SUBSELF)
            else if d = rn CHR ''='' then Inr (i, PushBack_token s (str ''-='') atoken_COMPOSITE_SUB)
            else if d = rn CHR ''>'' then Inr (i, PushBack_token s (str ''->'') atoken_CASTING)
            else Inr (i - 1, PushBack_token s (str ''-'') atoken_SUB)))
       else if c = rn CHR ''*'' then
         (let i = i + 1 in
          if i \<ge> int (length data) then Inr (i, s)
          else bind_abort (src_at data i) (\<lambda>d.
            if d = rn CHR ''='' then Inr (i, PushBack_token s (str ''*='') atoken_COMPOSITE_MUL)
            else Inr (i - 1, PushBack_token s (str ''*'') atoken_MUL)))
       else if c = rn CHR ''/'' then
         (let i = i + 1 in
          if i \<ge> int (length data) then Inr (i, s)
          else bind_abort (src_at data i) (\<lambda>d.
            if d = rn CHR ''='' then Inr (i, PushBack_token s (str ''/='') atoken_COMPOSITE_DIV)
            else Inr (i - 1, PushBack_token s (str ''/'') atoken_DIV)))
       else if c = rn CHR ''^'' then Inr (i, PushBack_token s (str ''^'') atoken_POWER)
       else if c = rn CHR ''!'' then
         (if i \<ge> int (length data) then Inr (i, s)
          else bind_abort (src_at data i) (\<lambda>d.
            if d = rn CHR ''='' then Inr (i, PushBack_token s (str ''!='') atoken_NOEQ)
            else Inr (i - 1, PushBack_token s (str ''!'') atoken_NOT)))
       else if c = rn CHR ''.'' then Inr (i, PushBack_token s (str ''.'') atoken_QUOTE)
       else if c = rn CHR ''>'' then
         (let i = i + 1 in
          if i \<ge> int (length data) then Inr (i, s)
          else bind_abort (src_at data i) (\<lambda>d.
            if d = rn CHR ''='' then Inr (i, PushBack_token s (str ''>='') atoken_GTEQ)
            else Inr (i - 1, PushBack_token s (str ''>'') atoken_GT)))
       else if c = rn CHR ''<'' then
         (let i = i + 1 in
          if i \<ge> int (length data) then Inr (i, s)
          else bind_abort (src_at data i) (\<lambda>d.
            if d = rn CHR ''='' then Inr (i, PushBack_token s (str ''<='') atoken_LTEQ)
            else Inr (i - 1, PushBack_token s (str ''<'') atoken_LT)))
       else if c = rn CHR ''='' then
         (let i = i + 1 in
          if i \<ge> int (length data) then Inr (i, s)
          else bind_abort (src_at data i) (\<lambda>d.
            if d = rn CHR ''='' then Inr (i, PushBack_token s (str ''=='') atoken_EQ)
            else Inr (i - 1, PushBack_token s (str ''='') atoken_ASSIGMENT)))
       else if c = rn CHR ''|'' then
         (let i = i + 1 in
          if i \<ge> int (length data) then Inr (i, s)
          else bind_abort (src_at data i) (\<lambda>d.
            if d = rn CHR ''|'' then Inr (i, PushBack_token s (str ''||'') atoken_PERHAPS)
            else Inr (i - 1, PushBack_token s (str ''|'') atoken_OR)))
       else if c = rn CHR ''&'' then
         (let i = i + 1 in
          if i \<ge> int (length data) then Inr (i, s)
          else bind_abort (src_at data i) (\<lambda>d.
            if d = rn CHR ''&'' then Inr (i, PushBack_token s (str ''&&'') atoken_ALSO)
            else Inr (i - 1, PushBack_token s (str ''&'') atoken_AND)))
       else if c = 96 then Inr (i, PushBack_token s [96] atoken_ESCAPE)
       else if c = rn CHR ''%'' then Inr (i, PushBack_token s (str ''%'') atoken_MOD)
       else if c = rn CHR ''~'' then Inr (i, PushBack_token s (str ''~'') atoken_RAND)
       else if c = 9 then bind_abort (judge_space i data) (\<lambda>i. Inr (i, s))
       else if c = rn CHR '' '' then bind_abort (judge_space i data) (\<lambda>i. Inr (i, s))
       else if c = 10 then
         (let s = PushBack_token s [92, rn CHR ''n''] atoken_EOF;
              s = s\<lparr>ATokenList.Line := ATokenList.Line s + 1\<rparr>;
              s = s\<lparr>ATokenList.Column := 0\<rparr>
          in Inr (i, s))
       else if c = 13 then
         (let i = i + 1 in
          if i \<ge> int (length data) then Inr (i, s)
          else bind_abort (src_at data i) (\<lambda>d.
            if d = 10 then
              (let s = PushBack_token s [92, rn CHR ''r'', 92, rn CHR ''b''] atoken_EOF;
                   s = s\<lparr>ATokenList.Line := ATokenList.Line s + 1\<rparr>;
                   s = s\<lparr>ATokenList.Column := 0\<rparr>
               in Inr (i, s))
            else
              (let s = PushBack_token s [92, rn CHR ''r''] atoken_EOF;
                   s = s\<lparr>ATokenList.Line := ATokenList.Line s + 1\<rparr>;
                   i = i - 1;
                   s = s\<lparr>ATokenList.Column := 0\<rparr>
               in Inr (i, s))))
       else if c = 34 then judge_string i data s
       else if c \<ge> rn CHR ''0'' \<and> c \<le> rn CHR ''9'' then judge_number i data s
       else if judge_symbol c then judge_other i data s
       else Inr (i, PushBack_error s (illegal_token c)))"

text \<open>
  The \<open>for\<close> loop of \<open>ReadString\<close>.  It need not end (see the case of \<open>!\<close>), so
  it runs on fuel: \<open>None\<close> is a loop that has not ended within the fuel.
\<close>

fun ReadString_loop :: "nat \<Rightarrow> rune list \<Rightarrow> int \<Rightarrow> ATokenList \<Rightarrow> (abort + ATokenList) option" where
  "ReadString_loop 0 data i s = None"
| "ReadString_loop (Suc n) data i s =
     (if i \<ge> int (length data) then Some (Inr (PushBack_token s (str ''End'') atoken_EOF))
      else
        (case ReadString_switch data i s of
           Inl e \<Rightarrow> Some (Inl e)
         | Inr (i', s') \<Rightarrow>
             ReadString_loop n data (i' + 1)
               (s'\<lparr>ATokenList.Column := ATokenList.Column s' + (i' - i + 1)\<rparr>)))"

text \<open>
  \<open>ReadString\<close> of the token list: the scan, then the exit when lex errors were
  recorded, else the cursor is set to the front.  The argument is the source text as
  its code points (\<open>[]rune(data_str)\<close>).
\<close>

definition ATokenList_ReadString ::
  "nat \<Rightarrow> rune list \<Rightarrow> ATokenList \<Rightarrow> (abort + ATokenList) option" where
  "ATokenList_ReadString fuel data s =
     (case ReadString_loop fuel data 0 s of
        None \<Rightarrow> None
      | Some (Inl e) \<Rightarrow> Some (Inl e)
      | Some (Inr s') \<Rightarrow>
          if length (Error_list s') > 0 then Some (Inl (Exit_LexError (Error_list s')))
          else Some (Inr (s'\<lparr>current_iterator := list_Front (token_list s')\<rparr>)))"

definition ATokenList_Init :: ATokenList where
  "ATokenList_Init =
     \<lparr>token_list = [], ATokenList.Line = 1, ATokenList.Column = 1, Count = 1,
      Error_list = [], current_iterator = None\<rparr>"

text \<open>
  For stating that the scan carries its lex errors along: the token list state with
  the errors \<open>es\<close> recorded before those it holds.
\<close>

definition add_errors :: "ALexError list \<Rightarrow> ATokenList \<Rightarrow> ATokenList" where
  "add_errors es s = s\<lparr>Error_list := es @ Error_list s\<rparr>"

definition add_errors_res ::
  "ALexError list \<Rightarrow> abort + (int \<times> ATokenList) \<Rightarrow> abort + (int \<times> ATokenList)" where
  "add_errors_res es r = (case r of Inl e \<Rightarrow> Inl e | Inr (i, s) \<Rightarrow> Inr (i, add_errors es s))"

section \<open>Numbers and the expression tree (package aparser)\<close>

subsection \<open>The type tags\<close>

definition aparser_NUMBER :: int where "aparser_NUMBER = 1"
definition aparser_BOOL :: int where "aparser_BOOL = 2"
definition aparser_SELFOPERATION_ADDSELF :: int where "aparser_SELFOPERATION_ADDSELF = 3"
definition aparser_SELFOPERATION_SUBSELF :: int where "aparser_SELFOPERATION_SUBSELF = 4"
definition aparser_CALLFUNC :: int where "aparser_CALLFUNC = 5"
definition aparser_VAR :: int where "aparser_VAR = 6"
definition aparser_ARITHMETICEXPRESSION :: int where "aparser_ARITHMETICEXPRESSION = 7"
definition aparser_ADD :: int where "aparser_ADD = 8"
definition aparser_SUB :: int where "aparser_SUB = 9"
definition aparser_MUL :: int where "aparser_MUL = 10"
definition aparser_DIV :: int where "aparser_DIV = 11"
definition aparser_POWER :: int where "aparser_POWER = 12"
definition aparser_MOD :: int where "aparser_MOD = 13"
definition aparser_RAND :: int where "aparser_RAND = 14"


subsection \<open>AST\_Number\<close>

text \<open>
  \<open>AST_Number\<close> wraps a \<open>*big.Rat\<close> of Go's \<open>math/big\<close>.  The pointer
  is an \<open>option\<close>, \<open>None\<close> the nil pointer that \<open>new(AST_Number)\<close> holds;
  a method of \<open>big.Rat\<close> called on a nil receiver or with a nil argument panics.
  The library is modelled after its documentation: the value of a \<open>big.Rat\<close> is a
  rational number, \<open>Rat_value\<close> of a \<open>rat\<close>; \<open>Add\<close>, \<open>Sub\<close>,
  \<open>Mul\<close> and \<open>Abs\<close> are the operations on rationals, and \<open>Quo\<close> is the
  quotient and panics, before anything else, when the divisor is zero.
  \<open>SetString\<close> is modelled on the digit strings with at most one point; on any
  other string built from digits and points it fails, and the documentation leaves
  the receiver's value undefined then: that value is \<open>Rat_undefined\<close>, and an
  operation on it gives \<open>Rat_undefined\<close>.  Signs, exponents, fractions and base
  prefixes, which no token carries, are outside this model and give
  \<open>Rat_undefined\<close> as well.  The receiver and the arguments of the methods of
  \<open>AST_Number\<close> are pointers to structs that exist (every \<open>*AST_Number\<close> of
  the repository comes from \<open>New_ASTNumber\<close>).
\<close>

definition is_digit :: "rune \<Rightarrow> bool" where
  "is_digit c = (rn CHR ''0'' \<le> c \<and> c \<le> rn CHR ''9'')"

definition digits_value :: "rune list \<Rightarrow> int" where
  "digits_value ds = foldl (\<lambda>a c. 10 * a + (c - rn CHR ''0'')) 0 ds"

definition Rat_SetString :: "gostring \<Rightarrow> rat option" where
  "Rat_SetString s =
     (let ip = takeWhile is_digit s; r = dropWhile is_digit s in
      if r = [] then (if ip = [] then None else Some (of_int (digits_value ip)))
      else if hd r = rn CHR ''.'' \<and> list_all is_digit (tl r) \<and> (ip \<noteq> [] \<or> tl r \<noteq> [])
      then Some (of_int (digits_value (ip @ tl r)) / of_int (10 ^ length (tl r)))
      else None)"

datatype big_Rat = Rat_value rat | Rat_undefined

definition Rat_lift2 :: "(rat \<Rightarrow> rat \<Rightarrow> rat) \<Rightarrow> big_Rat \<Rightarrow> big_Rat \<Rightarrow> big_Rat" where
  "Rat_lift2 f x y =
     (case (x, y) of (Rat_value p, Rat_value q) \<Rightarrow> Rat_value (f p q) | _ \<Rightarrow> Rat_undefined)"

definition Rat_Abs :: "big_Rat \<Rightarrow> big_Rat" where
  "Rat_Abs x = (case x of Rat_value p \<Rightarrow> Rat_value (abs p) | Rat_undefined \<Rightarrow> Rat_undefined)"

record AST_Number =
  Rat :: "big_Rat option"

definition Add :: "AST_Number \<Rightarrow> AST_Number \<Rightarrow> AST_Number \<Rightarrow> abort + AST_Number" where
  "Add s a b =
     (case (Rat s, Rat a, Rat b) of
        (Some z, Some x, Some y) \<Rightarrow> Inr (s\<lparr>Rat := Some (Rat_lift2 (+) x y)\<rparr>)
      | _ \<Rightarrow> Inl Panic_NilPointer)"

definition Sub :: "AST_Number \<Rightarrow> AST_Number \<Rightarrow> AST_Number \<Rightarrow> abort + AST_Number" where
  "Sub s a b =
     (case (Rat s, Rat a, Rat b) of
        (Some z, Some x, Some y) \<Rightarrow> Inr (s\<lparr>Rat := Some (Rat_lift2 (-) x y)\<rparr>)
      | _ \<Rightarrow> Inl Panic_NilPointer)"

definition Mul :: "AST_Number \<Rightarrow> AST_Number \<Rightarrow> AST_Number \<Rightarrow> abort + AST_Number" where
  "Mul s a b =
     (case (Rat s, Rat a, Rat b) of
        (Some z, Some x, Some y) \<Rightarrow> Inr (s\<lparr>Rat := Some (Rat_lift2 (*) x y)\<rparr>)
      | _ \<Rightarrow> Inl Panic_NilPointer)"

text \<open>
  \<open>Quo\<close> reads its divisor first and panics on zero before it touches the
  dividend or the receiver.
\<close>

definition Div :: "AST_Number \<Rightarrow> AST_Number \<Rightarrow> AST_Number \<Rightarrow> abort + AST_Number" where
  "Div s a b =
     (case Rat b of
        None \<Rightarrow> Inl Panic_NilPointer
      | Some y \<Rightarrow>
          if y = Rat_value 0 then Inl Panic_DivisionByZero
          else
            (case (Rat s, Rat a) of
               (Some z, Some x) \<Rightarrow> Inr (s\<lparr>Rat := Some (Rat_lift2 (/) x y)\<rparr>)
             | _ \<Rightarrow> Inl Panic_NilPointer))"

definition Abs :: "AST_Number \<Rightarrow> AST_Number \<Rightarrow> AST_Number \<Rightarrow> abort + AST_Number" where
  "Abs s a b =
     (case (Rat s, Rat a) of
        (Some z, Some x) \<Rightarrow> Inr (s\<lparr>Rat := Some (Rat_Abs x)\<rparr>)
      | _ \<Rightarrow> Inl Panic_NilPointer)"

definition Mod :: "AST_Number \<Rightarrow> AST_Number \<Rightarrow> AST_Number \<Rightarrow> AST_Number" where
  "Mod s a b = s"

text \<open>
  \<open>Init\<close> stores a fresh \<open>big.NewRat(0, 1)\<close> and calls \<open>SetString\<close> on it,
  ignoring what \<open>SetString\<close> returns.
\<close>

definition Init :: "AST_Number \<Rightarrow> gostring \<Rightarrow> AST_Number" where
  "Init s data =
     (let s = s\<lparr>Rat := Some (Rat_value 0)\<rparr> in
      s\<lparr>Rat := Some (case Rat_SetString data of
                       Some q \<Rightarrow> Rat_value q | None \<Rightarrow> Rat_undefined)\<rparr>)"

definition New_ASTNumber :: "gostring \<Rightarrow> AST_Number" where
  "New_ASTNumber data = Init \<lparr>Rat = None\<rparr> data"

text \<open>The decimal literals of the specification: \<open>[0-9]+(\.[0-9]+)?\<close>.\<close>

definition decimal_literal :: "gostring \<Rightarrow> bool" where
  "decimal_literal s =
     (let ip = takeWhile is_digit s; r = dropWhile is_digit s in
      ip \<noteq> [] \<and> (r = [] \<or> (hd r = rn CHR ''.'' \<and> tl r \<noteq> [] \<and> list_all is_digit (tl r))))"

subsection \<open>The expression tree\<close>

text \<open>
  The three node structs and the call node.  A pointer field is an \<open>option\<close>,
  \<open>None\<close> the nil pointer; \<open>new(T)\<close> is the node with type tag 0, nil pointers
  and zero values.
\<close>

datatype AST_Arithmetic_Expression =
  AST_Arithmetic_Expression
    (Exp_Type: int)
    (Exp_Value_Term: "AST_Arithmetic_Expression_Term option")
    (Exp_Value_Exp: "AST_Arithmetic_Expression option")
and AST_Arithmetic_Expression_Term =
  AST_Arithmetic_Expression_Term
    (Term_Type: int)
    (Term_Value_Term: "AST_Arithmetic_Expression_Term option")
    (Term_Value_Factor: "AST_Arithmetic_Expression_Factor option")
and AST_Arithmetic_Expression_Factor =
  AST_Arithmetic_Expression_Factor
    (Factor_Type: int)
    (Value_Number: "AST_Number option")
    (Value_Char: rune)
    (Value_Bool: bool)
    (Value_CallFunc: "AST_CallFuncStatement option")
    (Value_Arithmetic_Expression: "AST_Arithmetic_Expression option")
    (Value_VarWord: gostring)
    (Factor_Line: int)
and AST_CallFuncStatement =
  AST_CallFuncStatement (ReturnValueList: "AST_Arithmetic_Expression option")

subsection \<open>CheckType\<close>





section \<open>The parser (package aparser)\<close>

record AParser =
  AToken :: ATokenList
  Error_List :: "AParserError list"
  File :: gostring

text \<open>
  A parser procedure takes the parser state and gives \<open>None\<close> when its fuel ran
  out, else \<open>Some\<close> of the way the process stopped or of its result and the new
  state.  The procedures call each other recursively and move the cursor both ways, so
  each recursive procedure counts its calls down on the fuel.
\<close>

type_synonym 'a presult = "(abort + ('a \<times> AParser)) option"

definition preturn :: "'a \<Rightarrow> AParser \<Rightarrow> 'a presult" where
  "preturn x s = Some (Inr (x, s))"

definition pbind :: "'a presult \<Rightarrow> ('a \<Rightarrow> AParser \<Rightarrow> 'b presult) \<Rightarrow> 'b presult" where
  "pbind m f =
     (case m of None \<Rightarrow> None | Some (Inl e) \<Rightarrow> Some (Inl e) | Some (Inr (x, s)) \<Rightarrow> f x s)"

text \<open>\<open>s.AToken.GetToken()\<close>, whose result may be nil.\<close>

definition GetToken_p :: "AParser \<Rightarrow> AToken option presult" where
  "GetToken_p s = (case GetToken (AToken s) of (t, a) \<Rightarrow> Some (Inr (t, s\<lparr>AToken := a\<rparr>)))"

text \<open>
  \<open>s.AToken.GetToken()\<close> where the source reads a field of the result next (in a
  condition or in the arguments of a \<open>fmt.Println\<close>): nil panics.
\<close>

definition GetToken_nn :: "AParser \<Rightarrow> AToken presult" where
  "GetToken_nn s =
     (case GetToken (AToken s) of
        (None, a) \<Rightarrow> Some (Inl Panic_NilPointer)
      | (Some t, a) \<Rightarrow> Some (Inr (t, s\<lparr>AToken := a\<rparr>)))"

definition BackToken_p :: "AParser \<Rightarrow> AToken presult" where
  "BackToken_p s =
     (case BackToken (AToken s) of
        Inl e \<Rightarrow> Some (Inl e)
      | Inr (t, a) \<Rightarrow> Some (Inr (t, s\<lparr>AToken := a\<rparr>)))"

definition PushError :: "AParser \<Rightarrow> int \<Rightarrow> int \<Rightarrow> gostring \<Rightarrow> gostring \<Rightarrow> AParser" where
  "PushError s line column file info =
     s\<lparr>Error_List := Error_List s @
        [\<lparr>AParserError.Line = line, AParserError.Column = column,
          AParserError.File = file, AParserError.error_info = info\<rparr>]\<rparr>"

text \<open>
  Every syntax error of the parser is
  \<open>s.PushError(t.Line, t.Column, s.File, "unexpected "+t.Value+rest)\<close> followed by
  \<open>os.Exit(1)\<close>; the exit carries the error list.
\<close>

definition PushError_Exit :: "AToken \<Rightarrow> gostring \<Rightarrow> AParser \<Rightarrow> 'a presult" where
  "PushError_Exit t rest s =
     Some (Inl (Exit_ParserError (Error_List
       (PushError s (AToken.Line t) (AToken.Column t) (AParser.File s)
          (str ''unexpected '' @ Value t @ rest)))))"

definition CheckUp :: "AParser \<Rightarrow> unit presult" where
  "CheckUp s =
     (if length (Error_List s) > 0 then Some (Inl (Exit_ParserError (Error_List s)))
      else preturn () s)"

definition AParser_Init :: "gostring \<Rightarrow> AParser" where
  "AParser_Init file = \<lparr>AToken = ATokenList_Init, Error_List = [], File = file\<rparr>"

subsection \<open>Procedures without recursion\<close>

definition BreakStatement :: "AParser \<Rightarrow> unit presult" where
  "BreakStatement s =
     pbind (GetToken_nn s) (\<lambda>token_1 s.
       if Type token_1 = atoken_BREAK then preturn () s
       else PushError_Exit token_1 (str '' expecting 'break' ->BreakStatement'') s)"

definition ContinueStatement :: "AParser \<Rightarrow> unit presult" where
  "ContinueStatement s =
     pbind (GetToken_nn s) (\<lambda>token_1 s.
       if Type token_1 = atoken_CONTINUE then preturn () s
       else PushError_Exit token_1 (str '' expecting 'continue' ->ContinueStatement'') s)"

definition FuncReturnType_Factor :: "AParser \<Rightarrow> unit presult" where
  "FuncReturnType_Factor s =
     pbind (GetToken_nn s) (\<lambda>token s.
       if Type token = atoken_WORD then preturn () s
       else PushError_Exit token (str '' expecting 'Type' ->FuncReturnType_Factor'') s)"

definition FuncStatement_Define_Factor :: "AParser \<Rightarrow> unit presult" where
  "FuncStatement_Define_Factor s =
     pbind (GetToken_nn s) (\<lambda>token_1 s.
       if Type token_1 = atoken_VAR then
         pbind (GetToken_nn s) (\<lambda>token_2 s.
           if Type token_2 = atoken_WORD then
             pbind (GetToken_nn s) (\<lambda>token_3 s.
               if Type token_3 = atoken_CASTING then
                 pbind (GetToken_nn s) (\<lambda>token_4 s.
                   if Type token_4 = atoken_WORD then preturn () s
                   else PushError_Exit token_4
                          (str '' expecting 'WORD' ->FuncStatement_Define_Factor'') s)
               else PushError_Exit token_3
                      (str '' expecting 'CASTING' ->FuncStatement_Define_Factor'') s)
           else PushError_Exit token_2
                  (str '' expecting 'WORD' ->FuncStatement_Define_Factor'') s)
       else pbind (BackToken_p s) (\<lambda>_ s. preturn () s))"

subsection \<open>Lists of return types, parameters and assigned names\<close>

fun FuncReturnType_loop :: "nat \<Rightarrow> AParser \<Rightarrow> unit presult" where
  "FuncReturnType_loop 0 s = None"
| "FuncReturnType_loop (Suc n) s =
     pbind (GetToken_nn s) (\<lambda>token s.
       if Type token \<noteq> atoken_COMMA then pbind (BackToken_p s) (\<lambda>_ s. preturn () s)
       else pbind (FuncReturnType_Factor s) (\<lambda>_ s. FuncReturnType_loop n s))"

definition FuncReturnType :: "nat \<Rightarrow> AParser \<Rightarrow> unit presult" where
  "FuncReturnType fuel s =
     pbind (FuncReturnType_Factor s) (\<lambda>_ s. FuncReturnType_loop fuel s)"

fun TMP_FuncStatement_Define :: "nat \<Rightarrow> AParser \<Rightarrow> unit presult" where
  "TMP_FuncStatement_Define 0 s = None"
| "TMP_FuncStatement_Define (Suc n) s =
     pbind (GetToken_nn s) (\<lambda>token s.
       if Type token = atoken_COMMA then
         pbind (FuncStatement_Define_Factor s) (\<lambda>_ s. TMP_FuncStatement_Define n s)
       else pbind (BackToken_p s) (\<lambda>_ s. preturn () s))"

definition FuncStatement_Define :: "nat \<Rightarrow> AParser \<Rightarrow> unit presult" where
  "FuncStatement_Define fuel s =
     pbind (FuncStatement_Define_Factor s) (\<lambda>_ s. TMP_FuncStatement_Define fuel s)"

fun TMP_AssigmentStatement :: "nat \<Rightarrow> AParser \<Rightarrow> unit presult" where
  "TMP_AssigmentStatement 0 s = None"
| "TMP_AssigmentStatement (Suc n) s =
     pbind (GetToken_nn s) (\<lambda>token_1 s.
       if Type token_1 = atoken_COMMA then
         pbind (GetToken_nn s) (\<lambda>token_2 s.
           if Type token_2 = atoken_WORD then TMP_AssigmentStatement n s
           else PushError_Exit token_2 (str '' expecting 'WORD' ->TMP_AssigmentStatement'') s)
       else pbind (BackToken_p s) (\<lambda>_ s. preturn () s))"

subsection \<open>Arithmetic expressions and calls\<close>

text \<open>
  The loops of \<open>Arithmetic_Expression\<close> and \<open>Arithmetic_Expression_Term\<close> append
  to a chain through the pointer \<open>tmp_result\<close>.  Their models take the first child
  of the node \<open>tmp_result\<close> points to and return that node as the loop leaves it:
  with tag 0 and no tail when the loop breaks there, else with the operator's tag and
  the node built by the following iterations as its tail.  The last \<open>else\<close> of each
  loop (\<open>BackToken\<close>, \<open>continue\<close>) is kept though no token type reaches it.
\<close>

fun Arithmetic_Expression :: "nat \<Rightarrow> AParser \<Rightarrow> AST_Arithmetic_Expression presult"
and Arithmetic_Expression_loop ::
    "nat \<Rightarrow> AST_Arithmetic_Expression_Term option \<Rightarrow> AParser \<Rightarrow> AST_Arithmetic_Expression presult"
and Arithmetic_Expression_Term :: "nat \<Rightarrow> AParser \<Rightarrow> AST_Arithmetic_Expression_Term presult"
and Arithmetic_Expression_Term_loop ::
    "nat \<Rightarrow> AST_Arithmetic_Expression_Factor option \<Rightarrow> AParser
       \<Rightarrow> AST_Arithmetic_Expression_Term presult"
and Arithmetic_Expression_Factor :: "nat \<Rightarrow> AParser \<Rightarrow> AST_Arithmetic_Expression_Factor presult"
and CallFuncStatement :: "nat \<Rightarrow> AParser \<Rightarrow> unit presult"
and CallFuncStatement_Arg :: "nat \<Rightarrow> AParser \<Rightarrow> unit presult"
and Tmp_CallFuncStatement_Arg :: "nat \<Rightarrow> AParser \<Rightarrow> unit presult"
where
  "Arithmetic_Expression 0 s = None"
| "Arithmetic_Expression (Suc n) s =
     pbind (Arithmetic_Expression_Term n s) (\<lambda>term s.
       Arithmetic_Expression_loop n (Some term) s)"
| "Arithmetic_Expression_loop 0 vt s = None"
| "Arithmetic_Expression_loop (Suc n) vt s =
     pbind (GetToken_nn s) (\<lambda>token s.
       if Type token \<noteq> atoken_ADD \<and> Type token \<noteq> atoken_SUB then
         pbind (BackToken_p s) (\<lambda>_ s. preturn (AST_Arithmetic_Expression 0 vt None) s)
       else
         pbind (Arithmetic_Expression_Term n s) (\<lambda>term s.
           if Type token = atoken_ADD then
             pbind (Arithmetic_Expression_loop n (Some term) s) (\<lambda>exp s.
               preturn (AST_Arithmetic_Expression aparser_ADD vt (Some exp)) s)
           else if Type token = atoken_SUB then
             pbind (Arithmetic_Expression_loop n (Some term) s) (\<lambda>exp s.
               preturn (AST_Arithmetic_Expression aparser_SUB vt (Some exp)) s)
           else pbind (BackToken_p s) (\<lambda>_ s. Arithmetic_Expression_loop n vt s)))"
| "Arithmetic_Expression_Term 0 s = None"
| "Arithmetic_Expression_Term (Suc n) s =
     pbind (Arithmetic_Expression_Factor n s) (\<lambda>factor s.
       Arithmetic_Expression_Term_loop n (Some factor) s)"
| "Arithmetic_Expression_Term_loop 0 vf s = None"
| "Arithmetic_Expression_Term_loop (Suc n) vf s =
     pbind (GetToken_nn s) (\<lambda>token s.
       if Type token \<noteq> atoken_MUL \<and> Type token \<noteq> atoken_DIV \<and> Type token \<noteq> atoken_POWER
          \<and> Type token \<noteq> atoken_MOD \<and> Type token \<noteq> atoken_RAND then
         pbind (BackToken_p s) (\<lambda>_ s. preturn (AST_Arithmetic_Expression_Term 0 None vf) s)
       else
         pbind (Arithmetic_Expression_Factor n s) (\<lambda>factor s.
           if Type token = atoken_MUL then
             pbind (Arithmetic_Expression_Term_loop n (Some factor) s) (\<lambda>term s.
               preturn (AST_Arithmetic_Expression_Term aparser_MUL (Some term) vf) s)
           else if Type token = atoken_DIV then
             pbind (Arithmetic_Expression_Term_loop n (Some factor) s) (\<lambda>term s.
               preturn (AST_Arithmetic_Expression_Term aparser_DIV (Some term) vf) s)
           else if Type token = atoken_POWER then
             pbind (Arithmetic_Expression_Term_loop n (Some factor) s) (\<lambda>term s.
               preturn (AST_Arithmetic_Expression_Term aparser_POWER (Some term) vf) s)
           else if Type token = atoken_MOD then
             pbind (Arithmetic_Expression_Term_loop n (Some factor) s) (\<lambda>term s.
               preturn (AST_Arithmetic_Expression_Term aparser_MOD (Some term) vf) s)
           else if Type token = atoken_RAND then
             pbind (Arithmetic_Expression_Term_loop n (Some factor) s) (\<lambda>term s.
               preturn (AST_Arithmetic_Expression_Term aparser_RAND (Some term) vf) s)
           else pbind (BackToken_p s) (\<lambda>_ s. Arithmetic_Expression_Term_loop n vf s)))"
| "Arithmetic_Expression_Factor 0 s = None"
| "Arithmetic_Expression_Factor (Suc n) s =
     pbind (GetToken_nn s) (\<lambda>token s.
       if Type token = atoken_NUMBER then
         preturn (AST_Arithmetic_Expression_Factor aparser_NUMBER
                    (Some (New_ASTNumber (Value token))) 0 False None None [] (AToken.Line token)) s
       else if Type token = atoken_TRUE then
         preturn (AST_Arithmetic_Expression_Factor aparser_BOOL
                    None 0 True None None [] (AToken.Line token)) s
       else if Type token = atoken_FALSE then
         preturn (AST_Arithmetic_Expression_Factor aparser_BOOL
                    None 0 False None None [] (AToken.Line token)) s
       else if Type token = atoken_LP then
         pbind (Arithmetic_Expression n s) (\<lambda>exp s.
           pbind (GetToken_nn s) (\<lambda>token_1 s.
             if Type token_1 = atoken_RP then
               preturn (AST_Arithmetic_Expression_Factor aparser_ARITHMETICEXPRESSION
                          None 0 False None (Some exp) [] (AToken.Line token)) s
             else PushError_Exit token_1
                    (str '' expecting '}' ->Arithmetic_Expression_Factor'') s))
       else if Type token = atoken_WORD then
         pbind (GetToken_nn s) (\<lambda>token_1 s.
           if Type token_1 = atoken_ADDSELF then
             preturn (AST_Arithmetic_Expression_Factor aparser_SELFOPERATION_ADDSELF
                        None 0 False None None (Value token) (AToken.Line token)) s
           else if Type token_1 = atoken_SUBSELF then
             preturn (AST_Arithmetic_Expression_Factor aparser_SELFOPERATION_SUBSELF
                        None 0 False None None (Value token) (AToken.Line token)) s
           else if Type token_1 = atoken_LP then
             pbind (BackToken_p s) (\<lambda>_ s.
               pbind (BackToken_p s) (\<lambda>_ s.
                 pbind (CallFuncStatement n s) (\<lambda>_ s.
                   preturn (AST_Arithmetic_Expression_Factor aparser_CALLFUNC
                              None 0 False None None [] (AToken.Line token)) s)))
           else
             pbind (BackToken_p s) (\<lambda>_ s.
               preturn (AST_Arithmetic_Expression_Factor aparser_VAR
                          None 0 False None None (Value token) (AToken.Line token)) s))
       else PushError_Exit token
              (str '' expecting 'num' || 'WORD' || 'true' || 'false' || ->Arithmetic_Expression_Factor'') s)"
| "CallFuncStatement 0 s = None"
| "CallFuncStatement (Suc n) s =
     pbind (GetToken_nn s) (\<lambda>token_1 s.
       if Type token_1 = atoken_WORD then
         pbind (GetToken_nn s) (\<lambda>token_2 s.
           if Type token_2 = atoken_LP then
             pbind (GetToken_nn s) (\<lambda>token_4 s.
               if Type token_4 = atoken_RP then preturn () s
               else
                 pbind (BackToken_p s) (\<lambda>_ s.
                   pbind (CallFuncStatement_Arg n s) (\<lambda>_ s.
                     pbind (GetToken_nn s) (\<lambda>token_3 s.
                       if Type token_3 = atoken_RP then preturn () s
                       else PushError_Exit token_3
                              (str '' expecting '}' ->CallFuncStatement'') s))))
           else PushError_Exit token_2 (str '' expecting '{' ->CallFuncStatement'') s)
       else PushError_Exit token_1 (str '' expecting 'WORD' ->CallFuncStatement'') s)"
| "CallFuncStatement_Arg 0 s = None"
| "CallFuncStatement_Arg (Suc n) s =
     pbind (Arithmetic_Expression n s) (\<lambda>_ s. Tmp_CallFuncStatement_Arg n s)"
| "Tmp_CallFuncStatement_Arg 0 s = None"
| "Tmp_CallFuncStatement_Arg (Suc n) s =
     pbind (GetToken_nn s) (\<lambda>token s.
       if Type token = atoken_COMMA then
         pbind (Arithmetic_Expression n s) (\<lambda>_ s. Tmp_CallFuncStatement_Arg n s)
       else pbind (BackToken_p s) (\<lambda>_ s. preturn () s))"

subsection \<open>Assignments, declarations, return, boolean expressions\<close>

definition TMP_MoreArithmetic_Expression :: "nat \<Rightarrow> AParser \<Rightarrow> unit presult" where
  "TMP_MoreArithmetic_Expression fuel s =
     pbind (GetToken_nn s) (\<lambda>token s.
       if Type token = atoken_COMMA then
         pbind (Arithmetic_Expression fuel s) (\<lambda>_ s. preturn () s)
       else pbind (BackToken_p s) (\<lambda>_ s. preturn () s))"

definition MoreArithmetic_Expression :: "nat \<Rightarrow> AParser \<Rightarrow> unit presult" where
  "MoreArithmetic_Expression fuel s =
     pbind (Arithmetic_Expression fuel s) (\<lambda>_ s. TMP_MoreArithmetic_Expression fuel s)"

definition AssigmentStatement :: "nat \<Rightarrow> AParser \<Rightarrow> unit presult" where
  "AssigmentStatement fuel s =
     pbind (GetToken_nn s) (\<lambda>token_1 s.
       if Type token_1 = atoken_WORD then
         pbind (TMP_AssigmentStatement fuel s) (\<lambda>_ s.
           pbind (GetToken_nn s) (\<lambda>token_2 s.
             if Type token_2 = atoken_ASSIGMENT then MoreArithmetic_Expression fuel s
             else PushError_Exit token_2 (str '' expecting '=' ->AssigmentStatement'') s))
       else PushError_Exit token_1 (str '' expecting 'WORD' ->AssigmentStatement'') s)"

definition VarStatement :: "nat \<Rightarrow> AParser \<Rightarrow> unit presult" where
  "VarStatement fuel s =
     pbind (GetToken_nn s) (\<lambda>token_1 s.
       if Type token_1 = atoken_VAR then
         pbind (GetToken_nn s) (\<lambda>token_2 s.
           if Type token_2 = atoken_WORD then
             pbind (GetToken_nn s) (\<lambda>token s.
               if Type token = atoken_CASTING then
                 pbind (GetToken_nn s) (\<lambda>token_3 s.
                   if Type token_3 = atoken_WORD then preturn () s
                   else PushError_Exit token_3 (str '' expecting 'Type' ->VarStatement'') s)
               else
                 pbind (BackToken_p s) (\<lambda>_ s.
                   pbind (BackToken_p s) (\<lambda>_ s. AssigmentStatement fuel s)))
           else PushError_Exit token_2 (str '' expecting 'WORD' ->IFStatement_ELSE'') s)
       else PushError_Exit token_1 (str '' expecting 'var' ->VarStatement'') s)"

fun FuncStatement_Return_loop :: "nat \<Rightarrow> AParser \<Rightarrow> unit presult" where
  "FuncStatement_Return_loop 0 s = None"
| "FuncStatement_Return_loop (Suc n) s =
     pbind (GetToken_nn s) (\<lambda>token_3 s.
       if Type token_3 \<noteq> atoken_COMMA then pbind (BackToken_p s) (\<lambda>_ s. preturn () s)
       else pbind (Arithmetic_Expression n s) (\<lambda>_ s. FuncStatement_Return_loop n s))"

definition FuncStatement_Return :: "nat \<Rightarrow> AParser \<Rightarrow> unit presult" where
  "FuncStatement_Return fuel s =
     pbind (GetToken_nn s) (\<lambda>token_1 s.
       if Type token_1 = atoken_RETURN then
         pbind (GetToken_nn s) (\<lambda>token_2 s.
           if Type token_2 = atoken_EOF then preturn () s
           else
             pbind (BackToken_p s) (\<lambda>_ s.
               pbind (Arithmetic_Expression fuel s) (\<lambda>_ s.
                 FuncStatement_Return_loop fuel s)))
       else preturn () s)"

definition ForStatement_Assigment :: "nat \<Rightarrow> AParser \<Rightarrow> unit presult" where
  "ForStatement_Assigment fuel s =
     pbind (GetToken_nn s) (\<lambda>token s.
       if Type token = atoken_VAR then pbind (BackToken_p s) (\<lambda>_ s. VarStatement fuel s)
       else pbind (BackToken_p s) (\<lambda>_ s. AssigmentStatement fuel s))"

fun Boolean_Expression :: "nat \<Rightarrow> AParser \<Rightarrow> unit presult"
and Boolean_Expression_loop :: "nat \<Rightarrow> AParser \<Rightarrow> unit presult"
and Boolean_Expression_Factor :: "nat \<Rightarrow> AParser \<Rightarrow> unit presult"
where
  "Boolean_Expression 0 s = None"
| "Boolean_Expression (Suc n) s =
     pbind (Boolean_Expression_Factor n s) (\<lambda>_ s. Boolean_Expression_loop n s)"
| "Boolean_Expression_loop 0 s = None"
| "Boolean_Expression_loop (Suc n) s =
     pbind (GetToken_nn s) (\<lambda>token s.
       if Type token \<noteq> atoken_ALSO \<and> Type token \<noteq> atoken_PERHAPS then
         pbind (BackToken_p s) (\<lambda>_ s. preturn () s)
       else
         pbind (Boolean_Expression_Factor n s) (\<lambda>_ s.
           if Type token = atoken_ALSO then Boolean_Expression_loop n s
           else if Type token = atoken_PERHAPS then Boolean_Expression_loop n s
           else pbind (BackToken_p s) (\<lambda>_ s. Boolean_Expression_loop n s)))"
| "Boolean_Expression_Factor 0 s = None"
| "Boolean_Expression_Factor (Suc n) s =
     pbind (GetToken_nn s) (\<lambda>token_1 s.
       if Type token_1 = atoken_LP then
         pbind (Boolean_Expression n s) (\<lambda>_ s.
           pbind (GetToken_nn s) (\<lambda>token s.
             if Type token = atoken_RP then preturn () s
             else PushError_Exit token_1
                    (str '' expecting ')' ->Boolean_Expression_Factor'') s))
       else
         pbind (BackToken_p s) (\<lambda>_ s.
           pbind (Arithmetic_Expression n s) (\<lambda>_ s.
             pbind (GetToken_nn s) (\<lambda>s_token s.
               if Type s_token = atoken_GT then
                 pbind (Arithmetic_Expression n s) (\<lambda>_ s. preturn () s)
               else if Type s_token = atoken_LT then
                 pbind (Arithmetic_Expression n s) (\<lambda>_ s. preturn () s)
               else if Type s_token = atoken_GTEQ then
                 pbind (Arithmetic_Expression n s) (\<lambda>_ s. preturn () s)
               else if Type s_token = atoken_LTEQ then
                 pbind (Arithmetic_Expression n s) (\<lambda>_ s. preturn () s)
               else PushError_Exit token_1
                      (str '' expecting '(' || '>' || '<' || '>=' || '<=' ->Boolean_Expression_Factor'') s))))"

subsection \<open>Blocks and the statements inside them\<close>

text \<open>
  The statement that starts with a \<open>WORD\<close>, as \<open>Statement\<close> and
  \<open>BlockStatement_Factor\<close> both have it: two tokens are read, the first without
  looking at it; a \<open>(\<close> or a \<open>=\<close> or \<open>,\<close> goes back two tokens and parses a
  call or an assignment, and there is no \<open>else\<close>.
\<close>

definition WORD_statement :: "nat \<Rightarrow> AParser \<Rightarrow> unit presult" where
  "WORD_statement fuel s =
     pbind (GetToken_p s) (\<lambda>_ s.
       pbind (GetToken_nn s) (\<lambda>s_token s.
         if Type s_token = atoken_LP then
           pbind (BackToken_p s) (\<lambda>_ s.
             pbind (BackToken_p s) (\<lambda>_ s. CallFuncStatement fuel s))
         else if Type s_token = atoken_ASSIGMENT \<or> Type s_token = atoken_COMMA then
           pbind (BackToken_p s) (\<lambda>_ s.
             pbind (BackToken_p s) (\<lambda>_ s. AssigmentStatement fuel s))
         else preturn () s))"

fun BlockStatement :: "nat \<Rightarrow> AParser \<Rightarrow> unit presult"
and BlockMain_Statement :: "nat \<Rightarrow> AParser \<Rightarrow> unit presult"
and TMP_BlockMain_Statement :: "nat \<Rightarrow> AParser \<Rightarrow> unit presult"
and BlockStatement_Factor :: "nat \<Rightarrow> AParser \<Rightarrow> bool presult"
and ForStatement :: "nat \<Rightarrow> AParser \<Rightarrow> unit presult"
and IFStatement :: "nat \<Rightarrow> AParser \<Rightarrow> unit presult"
and IFStatement_ELSE :: "nat \<Rightarrow> AParser \<Rightarrow> unit presult"
where
  "BlockStatement 0 s = None"
| "BlockStatement (Suc n) s =
     pbind (GetToken_nn s) (\<lambda>token_1 s.
       if Type token_1 = atoken_LBRACE then
         pbind (BlockMain_Statement n s) (\<lambda>_ s.
           pbind (GetToken_nn s) (\<lambda>token_2 s.
             if Type token_2 = atoken_RBRACE then preturn () s
             else PushError_Exit token_2 (str '' expecting '}' ->BlockStatement'') s))
       else PushError_Exit token_1 (str '' expecting '{' ->BlockStatement'') s)"
| "BlockMain_Statement 0 s = None"
| "BlockMain_Statement (Suc n) s =
     pbind (BlockStatement_Factor n s) (\<lambda>_ s. TMP_BlockMain_Statement n s)"
| "TMP_BlockMain_Statement 0 s = None"
| "TMP_BlockMain_Statement (Suc n) s =
     pbind (GetToken_nn s) (\<lambda>token_1 s.
       if Type token_1 = atoken_EOF then
         pbind (BlockStatement_Factor n s) (\<lambda>ok s.
           if ok then TMP_BlockMain_Statement n s else preturn () s)
       else pbind (BackToken_p s) (\<lambda>_ s. preturn () s))"
| "BlockStatement_Factor 0 s = None"
| "BlockStatement_Factor (Suc n) s =
     pbind (GetToken_nn s) (\<lambda>token s.
       pbind (BackToken_p s) (\<lambda>_ s.
         if Type token = atoken_VAR then pbind (VarStatement n s) (\<lambda>_ s. preturn True s)
         else if Type token = atoken_WORD then
           pbind (WORD_statement n s) (\<lambda>_ s. preturn True s)
         else if Type token = atoken_EOF then preturn True s
         else if Type token = atoken_FOR then pbind (ForStatement n s) (\<lambda>_ s. preturn True s)
         else if Type token = atoken_IF then pbind (IFStatement n s) (\<lambda>_ s. preturn True s)
         else if Type token = atoken_RBRACE then preturn False s
         else if Type token = atoken_RETURN then
           pbind (FuncStatement_Return n s) (\<lambda>_ s. preturn True s)
         else if Type token = atoken_CONTINUE then
           pbind (ContinueStatement s) (\<lambda>_ s. preturn True s)
         else if Type token = atoken_BREAK then
           pbind (BreakStatement s) (\<lambda>_ s. preturn True s)
         else PushError_Exit token
                (str '' expecting 'func' || '=' || 'var' || '( ' || 'WORD' || '' @ [39, 13, 10, 39] @ str '' || '' @ [39, 10, 39] @ str '' || 'for' ->BlockStatement_Factor'') s))"
| "ForStatement 0 s = None"
| "ForStatement (Suc n) s =
     pbind (GetToken_nn s) (\<lambda>token_1 s.
       if Type token_1 = atoken_FOR then
         pbind (GetToken_nn s) (\<lambda>token_2 s.
           if Type token_2 = atoken_LP then
             pbind (pbind (GetToken_nn s) (\<lambda>token_tmp s.
                      if Type token_tmp = atoken_SEMICOLON
                      then pbind (BackToken_p s) (\<lambda>_ s. preturn () s)
                      else pbind (BackToken_p s) (\<lambda>_ s. ForStatement_Assigment n s)))
             (\<lambda>_ s.
             pbind (pbind (GetToken_nn s) (\<lambda>token_3 s.
                      if Type token_3 = atoken_SEMICOLON then preturn () s
                      else PushError_Exit token_3 (str '' expecting 'WORD' ->ForStatement'') s))
             (\<lambda>_ s.
             pbind (pbind (GetToken_nn s) (\<lambda>token_tmp s.
                      if Type token_tmp = atoken_SEMICOLON
                      then pbind (BackToken_p s) (\<lambda>_ s. preturn () s)
                      else pbind (BackToken_p s) (\<lambda>_ s. Boolean_Expression n s)))
             (\<lambda>_ s.
             pbind (pbind (GetToken_nn s) (\<lambda>token_4 s.
                      if Type token_4 = atoken_SEMICOLON then preturn () s
                      else PushError_Exit token_4 (str '' expecting 'WORD' ->ForStatement'') s))
             (\<lambda>_ s.
             pbind (pbind (GetToken_nn s) (\<lambda>token_tmp s.
                      if Type token_tmp = atoken_RP
                      then pbind (BackToken_p s) (\<lambda>_ s. preturn () s)
                      else pbind (BackToken_p s) (\<lambda>_ s. ForStatement_Assigment n s)))
             (\<lambda>_ s.
             pbind (GetToken_nn s) (\<lambda>token_5 s.
               if Type token_5 = atoken_RP then BlockStatement n s
               else PushError_Exit token_5 (str '' expecting ')' ->ForStatement'') s))))))
           else PushError_Exit token_2 (str '' expecting 'WORD' ->ForStatement'') s)
       else PushError_Exit token_1 (str '' expecting 'for' ->ForStatement'') s)"
| "IFStatement 0 s = None"
| "IFStatement (Suc n) s =
     pbind (GetToken_nn s) (\<lambda>token_1 s.
       if Type token_1 = atoken_IF then
         pbind (GetToken_nn s) (\<lambda>token_2 s.
           if Type token_2 = atoken_LP then
             pbind (Boolean_Expression n s) (\<lambda>_ s.
               pbind (GetToken_nn s) (\<lambda>token_3 s.
                 if Type token_3 = atoken_RP then
                   pbind (BlockStatement n s) (\<lambda>_ s. IFStatement_ELSE n s)
                 else PushError_Exit token_3 (str '' expecting ')' ->IFStatement'') s))
           else PushError_Exit token_2 (str '' expecting '(' ->IFStatement'') s)
       else PushError_Exit token_1 (str '' expecting 'if' ->IFStatement'') s)"
| "IFStatement_ELSE 0 s = None"
| "IFStatement_ELSE (Suc n) s =
     pbind (GetToken_nn s) (\<lambda>token_1 s.
       if Type token_1 = atoken_ELSE then BlockStatement n s
       else if Type token_1 = atoken_ELSEIF then
         pbind (GetToken_nn s) (\<lambda>token_2 s.
           if Type token_2 = atoken_LP then
             pbind (Boolean_Expression n s) (\<lambda>_ s.
               pbind (GetToken_nn s) (\<lambda>token_3 s.
                 if Type token_3 = atoken_RP then BlockStatement n s
                 else PushError_Exit token_3 (str '' expecting ')' ->IFStatement_ELSE'') s))
           else PushError_Exit token_2 (str '' expecting '(' ->IFStatement_ELSE'') s)
       else pbind (BackToken_p s) (\<lambda>_ s. pbind (BackToken_p s) (\<lambda>_ s. preturn () s)))"

subsection \<open>Function declarations and the top level\<close>

definition FuncStatement :: "nat \<Rightarrow> AParser \<Rightarrow> unit presult" where
  "FuncStatement fuel s =
     pbind (GetToken_nn s) (\<lambda>token_1 s.
       if Type token_1 = atoken_FUNC then
         pbind (GetToken_nn s) (\<lambda>token_2 s.
           if Type token_2 = atoken_WORD then
             pbind (GetToken_nn s) (\<lambda>token_3 s.
               if Type token_3 = atoken_LP then
                 pbind (FuncStatement_Define fuel s) (\<lambda>_ s.
                   pbind (GetToken_nn s) (\<lambda>token_4 s.
                     if Type token_4 = atoken_RP then
                       pbind (pbind (GetToken_nn s) (\<lambda>token_5 s.
                                if Type token_5 = atoken_CASTING then FuncReturnType fuel s
                                else PushError_Exit token_4
                                       (str '' expecting '->(CASTRING)' ->FuncStatement'') s))
                       (\<lambda>_ s. BlockStatement fuel s)
                     else PushError_Exit token_4 (str '' expecting ')' ->FuncStatement'') s))
               else PushError_Exit token_3 (str '' expecting '(' ->FuncStatement'') s)
           else PushError_Exit token_2 (str '' expecting 'WORD' ->FuncStatement'') s)
       else PushError_Exit token_1 (str '' expecting 'func' ->FUncStatement'') s)"

definition Statement :: "nat \<Rightarrow> AParser \<Rightarrow> bool presult" where
  "Statement fuel s =
     pbind (GetToken_nn s) (\<lambda>token s.
       pbind (BackToken_p s) (\<lambda>_ s.
         if Type token = atoken_FUNC then pbind (FuncStatement fuel s) (\<lambda>_ s. preturn True s)
         else if Type token = atoken_VAR then
           pbind (VarStatement fuel s) (\<lambda>_ s. preturn True s)
         else if Type token = atoken_LP then
           pbind (BlockStatement fuel s) (\<lambda>_ s. preturn True s)
         else if Type token = atoken_WORD then
           pbind (WORD_statement fuel s) (\<lambda>_ s. preturn True s)
         else if Type token = atoken_EOF then preturn True s
         else if Type token = atoken_FOR then
           pbind (ForStatement fuel s) (\<lambda>_ s. preturn True s)
         else if Type token = atoken_IF then pbind (IFStatement fuel s) (\<lambda>_ s. preturn True s)
         else PushError_Exit token
                (str '' expecting 'func' || '=' || 'var' || '( ' || 'WORD' || '' @ [39, 13, 10, 39] @ str '' || '' @ [39, 92] @ str ''n' || 'for' || 'break' || 'continue' ->Statement'') s))"

fun TMP_MainStatement :: "nat \<Rightarrow> AParser \<Rightarrow> unit presult" where
  "TMP_MainStatement 0 s = None"
| "TMP_MainStatement (Suc n) s =
     (case IsEnd (AToken s) of
        Inl e \<Rightarrow> Some (Inl e)
      | Inr True \<Rightarrow> preturn () s
      | Inr False \<Rightarrow>
          pbind (GetToken_p s) (\<lambda>token s.
            case token of
              None \<Rightarrow> preturn () s
            | Some token \<Rightarrow>
                if Type token = atoken_EOF then
                  pbind (Statement n s) (\<lambda>ok s.
                    if ok then TMP_MainStatement n s else preturn () s)
                else pbind (BackToken_p s) (\<lambda>_ s. preturn () s)))"

definition MainStatement :: "nat \<Rightarrow> AParser \<Rightarrow> unit presult" where
  "MainStatement fuel s = pbind (Statement fuel s) (\<lambda>_ s. TMP_MainStatement fuel s)"

text \<open>
  \<open>ReadString\<close> and \<open>ReadBasicExpression\<close> of the parser: the token list reads
  the text (and exits there on lex errors), \<open>CheckUp\<close>, then the parse.
\<close>

definition AToken_ReadString :: "nat \<Rightarrow> rune list \<Rightarrow> AParser \<Rightarrow> unit presult" where
  "AToken_ReadString fuel src s =
     (case ATokenList_ReadString fuel src (AToken s) of
        None \<Rightarrow> None
      | Some (Inl e) \<Rightarrow> Some (Inl e)
      | Some (Inr a) \<Rightarrow> preturn () (s\<lparr>AToken := a\<rparr>))"

definition AParser_ReadString :: "nat \<Rightarrow> rune list \<Rightarrow> AParser \<Rightarrow> unit presult" where
  "AParser_ReadString fuel src s =
     pbind (AToken_ReadString fuel src s) (\<lambda>_ s.
       pbind (CheckUp s) (\<lambda>_ s. MainStatement fuel s))"

definition ReadBasicExpression ::
  "nat \<Rightarrow> rune list \<Rightarrow> AParser \<Rightarrow> AST_Arithmetic_Expression presult" where
  "ReadBasicExpression fuel src s =
     pbind (AToken_ReadString fuel src s) (\<lambda>_ s.
       pbind (CheckUp s) (\<lambda>_ s. Arithmetic_Expression fuel s))"


section \<open>Fuel\<close>

text \<open>
  A run on more fuel extends a run on less: \<open>fuel_le a b\<close> holds when \<open>a\<close> is out
  of fuel or \<open>a\<close> and \<open>b\<close> are the same result.
\<close>

definition fuel_le :: "'a option \<Rightarrow> 'a option \<Rightarrow> bool" where
  "fuel_le a b = (a = None \<or> a = b)"

section \<open>Example values\<close>







text \<open>
  The parser state after the scan of \<open>foo bar\<close>, with the cursor at \<open>it\<close> after
  \<open>n\<close> cursor calls.
\<close>

definition skip_example :: "nat option \<Rightarrow> int \<Rightarrow> AParser" where
  "skip_example it n =
     \<lparr>AToken =
        \<lparr>token_list =
           [\<lparr>AToken.Line = 1, AToken.Column = 1, Value = str ''foo'', Type = atoken_WORD\<rparr>,
            \<lparr>AToken.Line = 1, AToken.Column = 5, Value = str ''bar'', Type = atoken_WORD\<rparr>,
            \<lparr>AToken.Line = 1, AToken.Column = 9, Value = str ''End'', Type = atoken_EOF\<rparr>],
         ATokenList.Line = 1, ATokenList.Column = 9, Count = 1 + n, Error_list = [],
         current_iterator = it\<rparr>,
      Error_List = [], File = []\<rparr>"

text \<open>
  The operators of the multiplicative level as the specification lists them
  (\<open>*\<close>, \<open>/\<close>, \<open>^\<close>, \<open>%\<close> and \<open>~\<close>), each with the tag of its node.
\<close>

definition term_operator :: "int \<Rightarrow> int option" where
  "term_operator t =
     (if t = atoken_MUL then Some aparser_MUL
      else if t = atoken_DIV then Some aparser_DIV
      else if t = atoken_POWER then Some aparser_POWER
      else if t = atoken_MOD then Some aparser_MOD
      else if t = atoken_RAND then Some aparser_RAND
      else None)"

text \<open>
  The tree that groups \<open>1 + 2 op 10\<close> as \<open>1 + (2 op 10)\<close>: an addition whose
  left operand is the term \<open>1\<close> and whose tail holds the chain of \<open>2\<close> and
  \<open>10\<close> with the tag of \<open>op\<close>.
\<close>

definition one_plus_chain :: "int \<Rightarrow> AST_Arithmetic_Expression" where
  "one_plus_chain tag =
     AST_Arithmetic_Expression aparser_ADD
       (Some (AST_Arithmetic_Expression_Term 0 None
          (Some (AST_Arithmetic_Expression_Factor aparser_NUMBER
             (Some (New_ASTNumber (str ''1''))) 0 False None None [] 1))))
       (Some (AST_Arithmetic_Expression 0
          (Some (AST_Arithmetic_Expression_Term tag
             (Some (AST_Arithmetic_Expression_Term 0 None
                (Some (AST_Arithmetic_Expression_Factor aparser_NUMBER
                   (Some (New_ASTNumber (str ''10''))) 0 False None None [] 1))))
             (Some (AST_Arithmetic_Expression_Factor aparser_NUMBER
                (Some (New_ASTNumber (str ''2''))) 0 False None None [] 1))))
          None))"

text \<open>The factor the parser makes of a NUMBER token with the text \<open>v\<close> in line 1.\<close>

definition number_factor :: "gostring \<Rightarrow> AST_Arithmetic_Expression_Factor" where
  "number_factor v =
     AST_Arithmetic_Expression_Factor aparser_NUMBER (Some (New_ASTNumber v)) 0 False None None [] 1"

text \<open>
  The parser state after the scan of \<open>1 + 2 ~ 10\<close>, with the cursor at \<open>it\<close>
  after \<open>n\<close> cursor calls.
\<close>

definition chain_example :: "nat option \<Rightarrow> int \<Rightarrow> AParser" where
  "chain_example it n =
     \<lparr>AToken =
        \<lparr>token_list =
           [\<lparr>AToken.Line = 1, AToken.Column = 1, Value = str ''1'', Type = atoken_NUMBER\<rparr>,
            \<lparr>AToken.Line = 1, AToken.Column = 3, Value = str ''+'', Type = atoken_ADD\<rparr>,
            \<lparr>AToken.Line = 1, AToken.Column = 5, Value = str ''2'', Type = atoken_NUMBER\<rparr>,
            \<lparr>AToken.Line = 1, AToken.Column = 7, Value = str ''~'', Type = atoken_RAND\<rparr>,
            \<lparr>AToken.Line = 1, AToken.Column = 9, Value = str ''10'', Type = atoken_NUMBER\<rparr>,
            \<lparr>AToken.Line = 1, AToken.Column = 12, Value = str ''End'', Type = atoken_EOF\<rparr>],
         ATokenList.Line = 1, ATokenList.Column = 12, Count = 1 + n, Error_list = [],
         current_iterator = it\<rparr>,
      Error_List = [], File = []\<rparr>"

section \<open>Properties of the token cursor\<close>








section \<open>Results do not depend on the fuel\<close>

text \<open>
  Once a scan or a parse of an expression has a result on some fuel, it has the same
  result on every larger fuel.
\<close>

lemma fuel_le_refl [simp, intro!]: "fuel_le a a"
  by (simp add: fuel_le_def)

lemma fuel_le_None [simp, intro!]: "fuel_le None a"
  by (simp add: fuel_le_def)

lemma fuel_le_Some: "fuel_le a b \<Longrightarrow> a = Some r \<Longrightarrow> b = Some r"
  by (simp add: fuel_le_def)

lemma fuel_le_pbind [intro!]:
  "fuel_le m m' \<Longrightarrow> (\<And>x s. fuel_le (f x s) (f' x s)) \<Longrightarrow> fuel_le (pbind m f) (pbind m' f')"
  by (auto simp: fuel_le_def pbind_def split: option.splits sum.splits)

lemma fuel_le_if [intro!]:
  "(c \<Longrightarrow> fuel_le a a') \<Longrightarrow> (\<not> c \<Longrightarrow> fuel_le b b') \<Longrightarrow>
     fuel_le (if c then a else b) (if c then a' else b')"
  by simp

lemma expression_fuel_step:
  "(\<forall>s. fuel_le (Arithmetic_Expression n s) (Arithmetic_Expression (Suc n) s))
   \<and> (\<forall>vt s. fuel_le (Arithmetic_Expression_loop n vt s) (Arithmetic_Expression_loop (Suc n) vt s))
   \<and> (\<forall>s. fuel_le (Arithmetic_Expression_Term n s) (Arithmetic_Expression_Term (Suc n) s))
   \<and> (\<forall>vf s. fuel_le (Arithmetic_Expression_Term_loop n vf s) (Arithmetic_Expression_Term_loop (Suc n) vf s))
   \<and> (\<forall>s. fuel_le (Arithmetic_Expression_Factor n s) (Arithmetic_Expression_Factor (Suc n) s))
   \<and> (\<forall>s. fuel_le (CallFuncStatement n s) (CallFuncStatement (Suc n) s))
   \<and> (\<forall>s. fuel_le (CallFuncStatement_Arg n s) (CallFuncStatement_Arg (Suc n) s))
   \<and> (\<forall>s. fuel_le (Tmp_CallFuncStatement_Arg n s) (Tmp_CallFuncStatement_Arg (Suc n) s))"
proof (induction n)
  case 0
  show ?case by simp
next
  case (Suc n)
  then have e: "\<And>s. fuel_le (Arithmetic_Expression n s) (Arithmetic_Expression (Suc n) s)"
    and el: "\<And>vt s. fuel_le (Arithmetic_Expression_loop n vt s) (Arithmetic_Expression_loop (Suc n) vt s)"
    and t: "\<And>s. fuel_le (Arithmetic_Expression_Term n s) (Arithmetic_Expression_Term (Suc n) s)"
    and tl: "\<And>vf s. fuel_le (Arithmetic_Expression_Term_loop n vf s) (Arithmetic_Expression_Term_loop (Suc n) vf s)"
    and f: "\<And>s. fuel_le (Arithmetic_Expression_Factor n s) (Arithmetic_Expression_Factor (Suc n) s)"
    and c: "\<And>s. fuel_le (CallFuncStatement n s) (CallFuncStatement (Suc n) s)"
    and ca: "\<And>s. fuel_le (CallFuncStatement_Arg n s) (CallFuncStatement_Arg (Suc n) s)"
    and tc: "\<And>s. fuel_le (Tmp_CallFuncStatement_Arg n s) (Tmp_CallFuncStatement_Arg (Suc n) s)"
    by blast+
  have 1: "fuel_le (Arithmetic_Expression (Suc n) s) (Arithmetic_Expression (Suc (Suc n)) s)" for s
    unfolding Arithmetic_Expression.simps(2) [of n s] Arithmetic_Expression.simps(2) [of "Suc n" s] by (intro fuel_le_pbind t el)
  have 2: "fuel_le (Arithmetic_Expression_loop (Suc n) vt s) (Arithmetic_Expression_loop (Suc (Suc n)) vt s)" for vt s
    unfolding Arithmetic_Expression_loop.simps(2) [of n vt s] Arithmetic_Expression_loop.simps(2) [of "Suc n" vt s]
    by (intro fuel_le_pbind fuel_le_if fuel_le_refl t el)
  have 3: "fuel_le (Arithmetic_Expression_Term (Suc n) s) (Arithmetic_Expression_Term (Suc (Suc n)) s)" for s
    unfolding Arithmetic_Expression_Term.simps(2) [of n s] Arithmetic_Expression_Term.simps(2) [of "Suc n" s] by (intro fuel_le_pbind f tl)
  have 4: "fuel_le (Arithmetic_Expression_Term_loop (Suc n) vf s) (Arithmetic_Expression_Term_loop (Suc (Suc n)) vf s)" for vf s
    unfolding Arithmetic_Expression_Term_loop.simps(2) [of n vf s] Arithmetic_Expression_Term_loop.simps(2) [of "Suc n" vf s]
    by (intro fuel_le_pbind fuel_le_if fuel_le_refl f tl)
  have 5: "fuel_le (Arithmetic_Expression_Factor (Suc n) s) (Arithmetic_Expression_Factor (Suc (Suc n)) s)" for s
    unfolding Arithmetic_Expression_Factor.simps(2) [of n s] Arithmetic_Expression_Factor.simps(2) [of "Suc n" s]
    by (intro fuel_le_pbind fuel_le_if fuel_le_refl e c)
  have 6: "fuel_le (CallFuncStatement (Suc n) s) (CallFuncStatement (Suc (Suc n)) s)" for s
    unfolding CallFuncStatement.simps(2) [of n s] CallFuncStatement.simps(2) [of "Suc n" s]
    by (intro fuel_le_pbind fuel_le_if fuel_le_refl ca)
  have 7: "fuel_le (CallFuncStatement_Arg (Suc n) s) (CallFuncStatement_Arg (Suc (Suc n)) s)" for s
    unfolding CallFuncStatement_Arg.simps(2) [of n s] CallFuncStatement_Arg.simps(2) [of "Suc n" s] by (intro fuel_le_pbind e tc)
  have 8: "fuel_le (Tmp_CallFuncStatement_Arg (Suc n) s) (Tmp_CallFuncStatement_Arg (Suc (Suc n)) s)" for s
    unfolding Tmp_CallFuncStatement_Arg.simps(2) [of n s] Tmp_CallFuncStatement_Arg.simps(2) [of "Suc n" s]
    by (intro fuel_le_pbind fuel_le_if fuel_le_refl e tc)
  show ?case using 1 2 3 4 5 6 7 8 by blast
qed

lemma ReadString_loop_fuel_step:
  "fuel_le (ReadString_loop n data i s) (ReadString_loop (Suc n) data i s)"
proof (induction n arbitrary: i s)
  case 0
  show ?case by simp
next
  case (Suc n)
  show ?case
  proof (cases "ReadString_switch data i s")
    case (Inl e)
    then show ?thesis by simp
  next
    case (Inr r)
    obtain i' s' where "r = (i', s')" by (cases r)
    with Inr Suc.IH [of "i' + 1"] show ?thesis by simp
  qed
qed


lemma fuel_le_trans: "fuel_le a b \<Longrightarrow> fuel_le b c \<Longrightarrow> fuel_le a c"
  by (auto simp: fuel_le_def)

lemma ReadString_loop_fuel:
  "fuel_le (ReadString_loop n data i s) (ReadString_loop (n + k) data i s)"
proof (induction k)
  case 0
  show ?case by simp
next
  case (Suc k)
  then show ?case
    using ReadString_loop_fuel_step [of "n + k" data i s] by (auto intro: fuel_le_trans)
qed

lemma ATokenList_ReadString_fuel:
  "fuel_le (ATokenList_ReadString n data s) (ATokenList_ReadString (n + k) data s)"
  using ReadString_loop_fuel [of n data 0 s k]
  by (auto simp: fuel_le_def ATokenList_ReadString_def)

lemma Arithmetic_Expression_fuel:
  "fuel_le (Arithmetic_Expression n s) (Arithmetic_Expression (n + k) s)"
proof (induction k)
  case 0
  show ?case by simp
next
  case (Suc k)
  then show ?case
    using expression_fuel_step [of "n + k"] by (auto intro: fuel_le_trans)
qed

lemma AToken_ReadString_fuel:
  "fuel_le (AToken_ReadString n src s) (AToken_ReadString (n + k) src s)"
  using ATokenList_ReadString_fuel [of n src "AToken s" k]
  by (auto simp: fuel_le_def AToken_ReadString_def)

lemma ReadBasicExpression_fuel:
  "fuel_le (ReadBasicExpression n src s) (ReadBasicExpression (n + k) src s)"
  unfolding ReadBasicExpression_def
  by (intro fuel_le_pbind fuel_le_refl AToken_ReadString_fuel Arithmetic_Expression_fuel)


section \<open>Properties of the tokenizer\<close>

lemmas tok_eval = ATokenList_ReadString_def ATokenList_Init_def str_def rn_def
  ReadString_switch_def bind_abort_def src_at_def judge_number_def judge_other_def
  judge_string_def judge_word_def PushBack_token_def PushBack_error_def judge_symbol_def
  atoken_defs list_Front_def lose_a_quote_def illegal_token_def judge_other_loop.simps judge_space.simps
  judge_number_loop.simps judge_string_loop.simps

subsection \<open>Lex errors do not change the scan and are kept\<close>

lemma add_errors_res_simps [simp]:
  "add_errors_res es (Inl e) = Inl e"
  "add_errors_res es (Inr (i, s)) = Inr (i, add_errors es s)"
  by (simp_all add: add_errors_res_def)

lemma add_errors_fields [simp]:
  "ATokenList.Line (add_errors es s) = ATokenList.Line s"
  "ATokenList.Column (add_errors es s) = ATokenList.Column s"
  "token_list (add_errors es s) = token_list s"
  "Error_list (add_errors es s) = es @ Error_list s"
  by (simp_all add: add_errors_def)

lemma PushBack_token_add_errors [simp]:
  "PushBack_token (add_errors es s) v t = add_errors es (PushBack_token s v t)"
  by (simp add: PushBack_token_def add_errors_def)

lemma PushBack_error_add_errors [simp]:
  "PushBack_error (add_errors es s) m = add_errors es (PushBack_error s m)"
  by (simp add: PushBack_error_def add_errors_def)

lemma add_errors_update [simp]:
  "(add_errors es s)\<lparr>ATokenList.Line := l\<rparr> = add_errors es (s\<lparr>ATokenList.Line := l\<rparr>)"
  "(add_errors es s)\<lparr>ATokenList.Column := c\<rparr> = add_errors es (s\<lparr>ATokenList.Column := c\<rparr>)"
  by (simp_all add: add_errors_def)

lemma judge_other_loop_add_errors:
  "judge_other_loop tmp i src (add_errors es s) = add_errors_res es (judge_other_loop tmp i src s)"
proof (induction tmp i src s rule: judge_other_loop.induct)
  case (1 tmp index source s)
  show ?case
    unfolding judge_other_loop.simps [of tmp index source "add_errors es s"]
      judge_other_loop.simps [of tmp index source s]
    using 1 by (simp split: sum.splits)
qed

lemma judge_number_loop_add_errors:
  "judge_number_loop tmp dc i src (add_errors es s) = add_errors_res es (judge_number_loop tmp dc i src s)"
proof (induction tmp dc i src s rule: judge_number_loop.induct)
  case (1 tmp dot_count index source s)
  show ?case
    unfolding judge_number_loop.simps [of tmp dot_count index source "add_errors es s"]
      judge_number_loop.simps [of tmp dot_count index source s]
    using 1 by (simp split: sum.splits)
qed

lemma judge_string_loop_add_errors:
  "judge_string_loop tmp c i src (add_errors es s) = add_errors_res es (judge_string_loop tmp c i src s)"
proof (induction tmp c i src s rule: judge_string_loop.induct)
  case (1 tmp count index source s)
  show ?case
    unfolding judge_string_loop.simps [of tmp count index source "add_errors es s"]
      judge_string_loop.simps [of tmp count index source s]
    using 1 by (simp split: sum.splits)
qed

lemma add_errors_res_bind:
  "add_errors_res es (bind_abort m f) = bind_abort m (\<lambda>x. add_errors_res es (f x))"
  by (cases m) (simp_all add: bind_abort_def)

lemma add_errors_res_if:
  "add_errors_res es (if c then a else b) = (if c then add_errors_res es a else add_errors_res es b)"
  by simp

lemma add_errors_res_case_prod:
  "add_errors_res es (case p of (a, b) \<Rightarrow> f a b) = (case p of (a, b) \<Rightarrow> add_errors_res es (f a b))"
  by (cases p) simp

lemma try_keywords_add_errors:
  "try_keywords kws i src (add_errors es s) = add_errors_res es (try_keywords kws i src s)"
proof (induction kws i src s rule: try_keywords.induct)
  case (1 i data s)
  then show ?case by (simp add: judge_other_def judge_other_loop_add_errors)
next
  case (2 kw ty rest i data s)
  show ?case
  proof (cases "judge_word (str kw) i data")
    case (Inl e)
    then show ?thesis by (simp add: bind_abort_def)
  next
    case (Inr r)
    obtain ok i' where r: "r = (ok, i')" by (cases r)
    show ?thesis using Inr r 2 by (simp add: bind_abort_def)
  qed
qed

lemma ReadString_switch_add_errors:
  "ReadString_switch data i (add_errors es s) = add_errors_res es (ReadString_switch data i s)"
  unfolding ReadString_switch_def Let_def
  by (simp add: add_errors_res_bind add_errors_res_if add_errors_res_case_prod
      try_keywords_add_errors judge_other_def judge_number_def judge_string_def
      judge_other_loop_add_errors judge_number_loop_add_errors judge_string_loop_add_errors
      del: try_keywords.simps cong: if_cong)

lemma ReadString_loop_add_errors:
  "ReadString_loop n data i (add_errors es s) = map_option (map_sum id (add_errors es)) (ReadString_loop n data i s)"
proof (induction n arbitrary: i s)
  case 0
  then show ?case by simp
next
  case (Suc n)
  show ?case
  proof (cases "ReadString_switch data i s")
    case (Inl e)
    then show ?thesis by (simp add: ReadString_switch_add_errors)
  next
    case (Inr r)
    obtain i' s' where r: "r = (i', s')" by (cases r)
    show ?thesis using Inr r Suc.IH [of "i' + 1"] by (simp add: ReadString_switch_add_errors)
  qed
qed



subsection \<open>The loop on the source text \<open>!\<close>\<close>

lemma ReadString_loop_bang: "ReadString_loop n (str ''!'') 0 s = None"
proof (induction n arbitrary: s)
  case 0
  then show ?case by simp
next
  case (Suc n)
  have sw: "ReadString_switch (str ''!'') 0 s = Inr (-1, PushBack_token s (str ''!'') atoken_NOT)"
    by (simp add: ReadString_switch_def bind_abort_def src_at_def str_def rn_def)
  show ?case using Suc.IH by (simp add: sw) (simp add: str_def)
qed

lemma ReadString_loop_at_bang: "ReadString_loop n (str ''@!'') 1 s = None"
proof (induction n arbitrary: s)
  case 0
  then show ?case by simp
next
  case (Suc n)
  have sw: "ReadString_switch (str ''@!'') 1 s = Inr (0, PushBack_token s (str ''!'') atoken_NOT)"
    by (simp add: ReadString_switch_def bind_abort_def src_at_def str_def rn_def)
  show ?case using Suc.IH by (simp add: sw) (simp add: str_def)
qed

subsection \<open>The claims about the tokenizer\<close>

text \<open>
  C6 (the code at the failing input).  On every fuel from 20 on, the source text
  \<open>1.2.3\<close> is scanned into one NUMBER token with the text \<open>1.2.3\<close> and the
  end marker, and no lex error is recorded: \<open>judge_number\<close> reports a point only
  when \<open>dot_count > 1\<close>, that is from the third point on, as the scan of
  \<open>1.2.3.4\<close> shows.
\<close>

theorem second_point_in_number_unreported:
  "ATokenList_ReadString (20 + k) (str ''1.2.3'') ATokenList_Init =
     Some (Inr \<lparr>token_list =
       [\<lparr>AToken.Line = 1, AToken.Column = 1, Value = str ''1.2.3'', Type = atoken_NUMBER\<rparr>,
        \<lparr>AToken.Line = 1, AToken.Column = 7, Value = str ''End'', Type = atoken_EOF\<rparr>],
       ATokenList.Line = 1, ATokenList.Column = 7, Count = 1, Error_list = [],
       current_iterator = Some 0\<rparr>)
   \<and> ATokenList_ReadString (20 + k) (str ''1.2.3.4'') ATokenList_Init =
     Some (Inl (Exit_LexError
       [\<lparr>ALexError.Line = 1, ALexError.Column = 1, error_info = str ''illegal number''\<rparr>]))"
proof -
  have a: "ATokenList_ReadString 20 (str ''1.2.3'') ATokenList_Init =
     Some (Inr \<lparr>token_list =
       [\<lparr>AToken.Line = 1, AToken.Column = 1, Value = str ''1.2.3'', Type = atoken_NUMBER\<rparr>,
        \<lparr>AToken.Line = 1, AToken.Column = 7, Value = str ''End'', Type = atoken_EOF\<rparr>],
       ATokenList.Line = 1, ATokenList.Column = 7, Count = 1, Error_list = [],
       current_iterator = Some 0\<rparr>)"
    by (simp add: tok_eval eval_nat_numeral)
  have b: "ATokenList_ReadString 20 (str ''1.2.3.4'') ATokenList_Init =
     Some (Inl (Exit_LexError
       [\<lparr>ALexError.Line = 1, ALexError.Column = 1, error_info = str ''illegal number''\<rparr>]))"
    by (simp add: tok_eval eval_nat_numeral)
  show ?thesis
    using fuel_le_Some [OF ATokenList_ReadString_fuel a] fuel_le_Some [OF ATokenList_ReadString_fuel b]
    by simp
qed

text \<open>
  C7 (the code at the failing input).  On every fuel from 20 on, the identifier
  \<open>func_call\<close>, which the grammar document of the repository uses as a function
  name, is scanned into the keyword token \<open>func\<close> followed by the identifier
  \<open>_call\<close>: \<open>judge_word\<close> matches a keyword as a prefix and never looks at the
  character after it.
\<close>

theorem keyword_prefix_splits_identifier:
  "ATokenList_ReadString (20 + k) (str ''func_call'') ATokenList_Init =
     Some (Inr \<lparr>token_list =
       [\<lparr>AToken.Line = 1, AToken.Column = 1, Value = str ''func'', Type = atoken_FUNC\<rparr>,
        \<lparr>AToken.Line = 1, AToken.Column = 5, Value = str ''_call'', Type = atoken_WORD\<rparr>,
        \<lparr>AToken.Line = 1, AToken.Column = 11, Value = str ''End'', Type = atoken_EOF\<rparr>],
       ATokenList.Line = 1, ATokenList.Column = 11, Count = 1, Error_list = [],
       current_iterator = Some 0\<rparr>)"
proof -
  have "ATokenList_ReadString 20 (str ''func_call'') ATokenList_Init =
     Some (Inr \<lparr>token_list =
       [\<lparr>AToken.Line = 1, AToken.Column = 1, Value = str ''func'', Type = atoken_FUNC\<rparr>,
        \<lparr>AToken.Line = 1, AToken.Column = 5, Value = str ''_call'', Type = atoken_WORD\<rparr>,
        \<lparr>AToken.Line = 1, AToken.Column = 11, Value = str ''End'', Type = atoken_EOF\<rparr>],
       ATokenList.Line = 1, ATokenList.Column = 11, Count = 1, Error_list = [],
       current_iterator = Some 0\<rparr>)"
    by (simp add: tok_eval eval_nat_numeral)
  from fuel_le_Some [OF ATokenList_ReadString_fuel this] show ?thesis .
qed

text \<open>
  C9 (the code at the failing inputs).  On the two code points double quote,
  backslash, \<open>judge_string\<close> reads the code point after the backslash, one past the
  end of the source: the scan ends in the index-out-of-range panic, whatever the fuel.
  On the source text \<open>!\<close> the case of \<open>!\<close> steps the index back without having
  advanced it, and the loop never ends: no amount of fuel gives a result.
\<close>

theorem ReadString_reads_past_end_and_loops:
  "(\<forall>n. ATokenList_ReadString (Suc n) [34, 92] ATokenList_Init = Some (Inl Panic_IndexOutOfRange))
   \<and> (\<forall>n. ATokenList_ReadString n (str ''!'') ATokenList_Init = None)"
  by (simp add: ATokenList_ReadString_def ReadString_loop_bang)
     (simp add: tok_eval)

text \<open>
  C8 (the code at the failing inputs).  On the source text \<open>@!\<close> the scan records
  the lex error for \<open>@\<close> and goes on to the next index, but there the case of
  \<open>!\<close> keeps the loop at the same index for ever: on no fuel does \<open>ReadString\<close>
  return or exit, in the token list or in the parser, so the recorded error is never
  reported.  On the three code points \<open>@\<close>, double quote, backslash the error
  for \<open>@\<close> is recorded likewise and the scan then ends in the index panic of
  \<open>judge_string\<close>, not in the exit that reports the lex errors.
\<close>

theorem lex_error_recorded_never_reported:
  "(\<forall>n. ReadString_loop (Suc n) (str ''@!'') 0 ATokenList_Init =
          ReadString_loop n (str ''@!'') 1
            \<lparr>token_list = [], ATokenList.Line = 1, ATokenList.Column = 2, Count = 1,
             Error_list = [\<lparr>ALexError.Line = 1, ALexError.Column = 1,
                             error_info = illegal_token (rn CHR ''@'')\<rparr>],
             current_iterator = None\<rparr>)
   \<and> (\<forall>n. ATokenList_ReadString n (str ''@!'') ATokenList_Init = None)
   \<and> (\<forall>n. AParser_ReadString n (str ''@!'') (AParser_Init file) = None)
   \<and> (\<forall>n. ReadString_loop (Suc n) [64, 34, 92] 0 ATokenList_Init =
          ReadString_loop n [64, 34, 92] 1
            \<lparr>token_list = [], ATokenList.Line = 1, ATokenList.Column = 2, Count = 1,
             Error_list = [\<lparr>ALexError.Line = 1, ALexError.Column = 1,
                             error_info = illegal_token (rn CHR ''@'')\<rparr>],
             current_iterator = None\<rparr>)
   \<and> (\<forall>n. ATokenList_ReadString (Suc (Suc n)) [64, 34, 92] ATokenList_Init
          = Some (Inl Panic_IndexOutOfRange))"
proof -
  have step: "ReadString_loop (Suc n) (str ''@!'') 0 ATokenList_Init =
          ReadString_loop n (str ''@!'') 1
            \<lparr>token_list = [], ATokenList.Line = 1, ATokenList.Column = 2, Count = 1,
             Error_list = [\<lparr>ALexError.Line = 1, ALexError.Column = 1,
                             error_info = illegal_token (rn CHR ''@'')\<rparr>],
             current_iterator = None\<rparr>" for n
    by (simp add: ReadString_switch_def bind_abort_def src_at_def str_def rn_def
        judge_symbol_def PushBack_error_def ATokenList_Init_def)
  have never: "ATokenList_ReadString n (str ''@!'') ATokenList_Init = None" for n
  proof (cases n)
    case 0
    then show ?thesis by (simp add: ATokenList_ReadString_def)
  next
    case (Suc m)
    then show ?thesis
      by (simp add: ATokenList_ReadString_def step ReadString_loop_at_bang
          del: ReadString_loop.simps)
  qed
  have parser: "AParser_ReadString n (str ''@!'') (AParser_Init file) = None" for n
    by (simp add: AParser_ReadString_def AToken_ReadString_def AParser_Init_def never pbind_def)
  have step': "ReadString_loop (Suc n) [64, 34, 92] 0 ATokenList_Init =
          ReadString_loop n [64, 34, 92] 1
            \<lparr>token_list = [], ATokenList.Line = 1, ATokenList.Column = 2, Count = 1,
             Error_list = [\<lparr>ALexError.Line = 1, ALexError.Column = 1,
                             error_info = illegal_token (rn CHR ''@'')\<rparr>],
             current_iterator = None\<rparr>" for n
    by (simp add: ReadString_switch_def bind_abort_def src_at_def str_def rn_def
        judge_symbol_def PushBack_error_def ATokenList_Init_def)
  have panic: "ATokenList_ReadString (Suc (Suc n)) [64, 34, 92] ATokenList_Init
          = Some (Inl Panic_IndexOutOfRange)" for n
    by (simp add: tok_eval)
  show ?thesis using step never parser step' panic by blast
qed

section \<open>Properties of the numbers and of the type check\<close>









lemma decimal_literal_SetString:
  "decimal_literal l \<Longrightarrow> \<exists>q. Rat_SetString l = Some q"
  by (auto simp: decimal_literal_def Rat_SetString_def Let_def)

lemmas number_eval = Add_def Sub_def Mul_def Div_def New_ASTNumber_def Init_def Rat_lift2_def
  Rat_SetString_def str_def rn_def is_digit_def digits_value_def decimal_literal_def

text \<open>
  C5 (as amended).  With \<open>math/big\<close>'s rationals modelled as the rationals: the
  sum of the numbers made from \<open>0.1\<close> and \<open>0.2\<close> is the number made from
  \<open>0.3\<close>.  A decimal literal makes a number with a defined value.  On numbers with
  defined values (the receiver a number whose \<open>Rat\<close> is set), \<open>Add\<close>,
  \<open>Sub\<close> and \<open>Mul\<close> store the exact sum, difference and product, so their
  results are such numbers again; \<open>Div\<close> stores the exact quotient when the
  divisor is not zero (multiplied by the divisor it gives the dividend back), and
  panics with division by zero, storing nothing, when the divisor is zero.  Every
  stored fraction, in lowest terms, has a positive denominator.
\<close>

theorem rational_arithmetic_exact:
  "(Rat s \<noteq> None \<longrightarrow>
      Add s (New_ASTNumber (str ''0.1'')) (New_ASTNumber (str ''0.2''))
        = Inr (New_ASTNumber (str ''0.3'')))
   \<and> (decimal_literal l \<longrightarrow> (\<exists>q. Rat (New_ASTNumber l) = Some (Rat_value q)))
   \<and> (Rat s \<noteq> None \<and> Rat a = Some (Rat_value p) \<and> Rat b = Some (Rat_value q) \<longrightarrow>
        Add s a b = Inr (s\<lparr>Rat := Some (Rat_value (p + q))\<rparr>)
        \<and> Sub s a b = Inr (s\<lparr>Rat := Some (Rat_value (p - q))\<rparr>)
        \<and> Mul s a b = Inr (s\<lparr>Rat := Some (Rat_value (p * q))\<rparr>)
        \<and> Div s a b = (if q = 0 then Inl Panic_DivisionByZero
                        else Inr (s\<lparr>Rat := Some (Rat_value (p / q))\<rparr>))
        \<and> (q \<noteq> 0 \<longrightarrow> p / q * q = p)
        \<and> 0 < snd (quotient_of (p + q)) \<and> 0 < snd (quotient_of (p - q))
        \<and> 0 < snd (quotient_of (p * q)) \<and> 0 < snd (quotient_of (p / q)))"
proof -
  have sum: "Add s (New_ASTNumber (str ''0.1'')) (New_ASTNumber (str ''0.2''))
               = Inr (New_ASTNumber (str ''0.3''))" if "Rat s \<noteq> None"
    using that by (cases s) (auto simp: number_eval)
  have lit: "\<exists>q. Rat (New_ASTNumber l) = Some (Rat_value q)" if "decimal_literal l"
    using decimal_literal_SetString [OF that] by (auto simp: New_ASTNumber_def Init_def)
  have pos: "0 < snd (quotient_of x)" for x :: rat
    by (cases "quotient_of x") (simp add: quotient_of_denom_pos)
  have ops: "Add s a b = Inr (s\<lparr>Rat := Some (Rat_value (p + q))\<rparr>)
             \<and> Sub s a b = Inr (s\<lparr>Rat := Some (Rat_value (p - q))\<rparr>)
             \<and> Mul s a b = Inr (s\<lparr>Rat := Some (Rat_value (p * q))\<rparr>)
             \<and> Div s a b = (if q = 0 then Inl Panic_DivisionByZero
                        else Inr (s\<lparr>Rat := Some (Rat_value (p / q))\<rparr>))"
    if "Rat s \<noteq> None" "Rat a = Some (Rat_value p)" "Rat b = Some (Rat_value q)"
    using that by (auto simp: Add_def Sub_def Mul_def Div_def Rat_lift2_def)
  have round: "p / q * q = p" if "q \<noteq> 0"
    using that by simp
  show ?thesis using sum lit ops round pos by blast
qed

theorem rational_arithmetic_exact_witness:
  "decimal_literal (str ''1.5'') \<and> decimal_literal (str ''0.25'')
   \<and> Rat (New_ASTNumber (str ''1.5'')) = Some (Rat_value (3 / 2))
   \<and> Rat (New_ASTNumber (str ''0.25'')) = Some (Rat_value (1 / 4))
   \<and> Add (New_ASTNumber (str ''1.5'')) (New_ASTNumber (str ''0.1'')) (New_ASTNumber (str ''0.2''))
       = Inr (New_ASTNumber (str ''0.3''))
   \<and> Add (New_ASTNumber (str ''1.5'')) (New_ASTNumber (str ''1.5'')) (New_ASTNumber (str ''0.25''))
       = Inr ((New_ASTNumber (str ''1.5''))\<lparr>Rat := Some (Rat_value (3 / 2 + 1 / 4))\<rparr>)
   \<and> Div (New_ASTNumber (str ''1.5'')) (New_ASTNumber (str ''1.5'')) (New_ASTNumber (str ''0.25''))
       = Inr ((New_ASTNumber (str ''1.5''))\<lparr>Rat := Some (Rat_value (3 / 2 / (1 / 4)))\<rparr>)"
proof -
  have l1: "decimal_literal (str ''1.5'')" and l2: "decimal_literal (str ''0.25'')"
    by (simp_all add: number_eval)
  have a: "Rat (New_ASTNumber (str ''1.5'')) = Some (Rat_value (3 / 2))"
    and b: "Rat (New_ASTNumber (str ''0.25'')) = Some (Rat_value (1 / 4))"
    by (simp_all add: number_eval)
  have s: "Rat (New_ASTNumber (str ''1.5'')) \<noteq> None"
    using a by simp
  have nz: "(1 / 4 :: rat) \<noteq> 0" by simp
  from rational_arithmetic_exact [of "New_ASTNumber (str ''1.5'')" "str ''1.5''"
      "New_ASTNumber (str ''1.5'')" "3 / 2" "New_ASTNumber (str ''0.25'')" "1 / 4"] l1 l2 a b s nz
  show ?thesis by simp
qed

text \<open>
  The claim as stated fails for a zero divisor: \<open>0\<close> and \<open>0.0\<close> are decimal
  literals, and \<open>Div\<close> by the numbers made from them panics with division by zero
  and stores no quotient.
\<close>

theorem rational_arithmetic_exact_counterexample:
  "decimal_literal (str ''1'') \<and> decimal_literal (str ''0'') \<and> decimal_literal (str ''0.0'')
   \<and> Div (New_ASTNumber (str ''1'')) (New_ASTNumber (str ''1'')) (New_ASTNumber (str ''0''))
       = Inl Panic_DivisionByZero
   \<and> Div (New_ASTNumber (str ''1'')) (New_ASTNumber (str ''1'')) (New_ASTNumber (str ''0.0''))
       = Inl Panic_DivisionByZero"
  by (simp add: number_eval)

section \<open>Properties of the parser\<close>

lemmas cursor_eval = GetToken_def BackToken_def IsEnd_def elem_Next_def elem_Prev_def
  list_Back_def list_Front_def

lemmas parser_eval = pbind_def preturn_def GetToken_p_def GetToken_nn_def BackToken_p_def
  PushError_def PushError_Exit_def CheckUp_def

lemma pbind_Inr: "pbind (Some (Inr (x, s))) f = f x s"
  by (simp add: pbind_def)

lemma GetToken_nn_Some:
  "GetToken (AToken s) = (Some token, a) \<Longrightarrow> GetToken_nn s = Some (Inr (token, s\<lparr>AToken := a\<rparr>))"
  by (simp add: GetToken_nn_def)

lemma Term_loop_takes_operator:
  assumes "GetToken (AToken s) = (Some token, a)" and "term_operator (Type token) = Some tag"
  shows "Arithmetic_Expression_Term_loop (Suc n) vf s =
        pbind (Arithmetic_Expression_Factor n (s\<lparr>AToken := a\<rparr>)) (\<lambda>factor s.
          pbind (Arithmetic_Expression_Term_loop n (Some factor) s) (\<lambda>term s.
            preturn (AST_Arithmetic_Expression_Term tag (Some term) vf) s))"
  using assms(2)
  by (auto simp: GetToken_nn_Some [OF assms(1)] pbind_Inr term_operator_def atoken_defs
      split: if_splits)

lemma Term_loop_leaves_other:
  assumes "GetToken (AToken s) = (Some token, a)" and "term_operator (Type token) = None"
  shows "Arithmetic_Expression_Term_loop (Suc n) vf s =
        pbind (BackToken_p (s\<lparr>AToken := a\<rparr>)) (\<lambda>_ s.
          preturn (AST_Arithmetic_Expression_Term 0 None vf) s)"
  using assms(2)
  by (auto simp: GetToken_nn_Some [OF assms(1)] pbind_Inr term_operator_def atoken_defs
      split: if_splits)

lemma Expression_loop_leaves_operator:
  assumes "GetToken (AToken s) = (Some token, a)" and "term_operator (Type token) = Some tag"
  shows "Arithmetic_Expression_loop (Suc n) vt s =
        pbind (BackToken_p (s\<lparr>AToken := a\<rparr>)) (\<lambda>_ s.
          preturn (AST_Arithmetic_Expression 0 vt None) s)"
  using assms(2)
  by (auto simp: GetToken_nn_Some [OF assms(1)] pbind_Inr term_operator_def atoken_defs
      split: if_splits)



lemma term_operator_cases:
  assumes "term_operator t = Some tag"
  obtains "t = atoken_MUL" "tag = aparser_MUL" | "t = atoken_DIV" "tag = aparser_DIV"
    | "t = atoken_POWER" "tag = aparser_POWER" | "t = atoken_MOD" "tag = aparser_MOD"
    | "t = atoken_RAND" "tag = aparser_RAND"
  using assms by (auto simp: term_operator_def split: if_splits)

lemma parse_chain:
  assumes "term_operator t = Some tag"
  shows "map_option (map_sum id fst)
     (Arithmetic_Expression 20
        \<lparr>AToken = \<lparr>token_list =
           [\<lparr>AToken.Line = 1, AToken.Column = 1, Value = str ''1'', Type = atoken_NUMBER\<rparr>,
            \<lparr>AToken.Line = 1, AToken.Column = 3, Value = str ''+'', Type = atoken_ADD\<rparr>,
            \<lparr>AToken.Line = 1, AToken.Column = 5, Value = str ''2'', Type = atoken_NUMBER\<rparr>,
            \<lparr>AToken.Line = 1, AToken.Column = 7, Value = v, Type = t\<rparr>,
            \<lparr>AToken.Line = 1, AToken.Column = 9, Value = str ''10'', Type = atoken_NUMBER\<rparr>,
            \<lparr>AToken.Line = 1, AToken.Column = 12, Value = str ''End'', Type = atoken_EOF\<rparr>],
           ATokenList.Line = 1, ATokenList.Column = 12, Count = 1, Error_list = [],
           current_iterator = Some 0\<rparr>,
         Error_List = [], File = file\<rparr>)
     = Some (Inr (one_plus_chain tag))"
  using assms
proof (cases rule: term_operator_cases)
  case 1
  then show ?thesis
    by (simp add: eval_nat_numeral parser_eval cursor_eval atoken_defs one_plus_chain_def)
next
  case 2
  then show ?thesis
    by (simp add: eval_nat_numeral parser_eval cursor_eval atoken_defs one_plus_chain_def)
next
  case 3
  then show ?thesis
    by (simp add: eval_nat_numeral parser_eval cursor_eval atoken_defs one_plus_chain_def)
next
  case 4
  then show ?thesis
    by (simp add: eval_nat_numeral parser_eval cursor_eval atoken_defs one_plus_chain_def)
next
  case 5
  then show ?thesis
    by (simp add: eval_nat_numeral parser_eval cursor_eval atoken_defs one_plus_chain_def)
qed

lemma tokens_mul:
  "ATokenList_ReadString 20 (str ''1 + 2 * 10'') ATokenList_Init = Some (Inr
     \<lparr>token_list =
        [\<lparr>AToken.Line = 1, AToken.Column = 1, Value = str ''1'', Type = atoken_NUMBER\<rparr>,
         \<lparr>AToken.Line = 1, AToken.Column = 3, Value = str ''+'', Type = atoken_ADD\<rparr>,
         \<lparr>AToken.Line = 1, AToken.Column = 5, Value = str ''2'', Type = atoken_NUMBER\<rparr>,
         \<lparr>AToken.Line = 1, AToken.Column = 7, Value = str ''*'', Type = atoken_MUL\<rparr>,
         \<lparr>AToken.Line = 1, AToken.Column = 9, Value = str ''10'', Type = atoken_NUMBER\<rparr>,
         \<lparr>AToken.Line = 1, AToken.Column = 12, Value = str ''End'', Type = atoken_EOF\<rparr>],
      ATokenList.Line = 1, ATokenList.Column = 12, Count = 1, Error_list = [],
      current_iterator = Some 0\<rparr>)"
  by (simp add: tok_eval eval_nat_numeral)

lemma read_mul:
  "map_option (map_sum id fst)
     (ReadBasicExpression (20 + k) (str ''1 + 2 * 10'') (AParser_Init file))
     = Some (Inr (one_plus_chain aparser_MUL))"
proof -
  have t: "term_operator atoken_MUL = Some aparser_MUL"
    by (simp add: term_operator_def atoken_defs)
  have run: "map_option (map_sum id fst)
     (ReadBasicExpression 20 (str ''1 + 2 * 10'') (AParser_Init file))
     = Some (Inr (one_plus_chain aparser_MUL))"
    unfolding ReadBasicExpression_def AToken_ReadString_def AParser_Init_def
    by (simp add: tokens_mul pbind_Inr preturn_def CheckUp_def parse_chain [OF t])
  then obtain r where r: "ReadBasicExpression 20 (str ''1 + 2 * 10'') (AParser_Init file) = Some r"
    by (cases "ReadBasicExpression 20 (str ''1 + 2 * 10'') (AParser_Init file)") auto
  from fuel_le_Some [OF ReadBasicExpression_fuel r] r run show ?thesis by simp
qed

lemma tokens_div:
  "ATokenList_ReadString 20 (str ''1 + 2 / 10'') ATokenList_Init = Some (Inr
     \<lparr>token_list =
        [\<lparr>AToken.Line = 1, AToken.Column = 1, Value = str ''1'', Type = atoken_NUMBER\<rparr>,
         \<lparr>AToken.Line = 1, AToken.Column = 3, Value = str ''+'', Type = atoken_ADD\<rparr>,
         \<lparr>AToken.Line = 1, AToken.Column = 5, Value = str ''2'', Type = atoken_NUMBER\<rparr>,
         \<lparr>AToken.Line = 1, AToken.Column = 7, Value = str ''/'', Type = atoken_DIV\<rparr>,
         \<lparr>AToken.Line = 1, AToken.Column = 9, Value = str ''10'', Type = atoken_NUMBER\<rparr>,
         \<lparr>AToken.Line = 1, AToken.Column = 12, Value = str ''End'', Type = atoken_EOF\<rparr>],
      ATokenList.Line = 1, ATokenList.Column = 12, Count = 1, Error_list = [],
      current_iterator = Some 0\<rparr>)"
  by (simp add: tok_eval eval_nat_numeral)

lemma read_div:
  "map_option (map_sum id fst)
     (ReadBasicExpression (20 + k) (str ''1 + 2 / 10'') (AParser_Init file))
     = Some (Inr (one_plus_chain aparser_DIV))"
proof -
  have t: "term_operator atoken_DIV = Some aparser_DIV"
    by (simp add: term_operator_def atoken_defs)
  have run: "map_option (map_sum id fst)
     (ReadBasicExpression 20 (str ''1 + 2 / 10'') (AParser_Init file))
     = Some (Inr (one_plus_chain aparser_DIV))"
    unfolding ReadBasicExpression_def AToken_ReadString_def AParser_Init_def
    by (simp add: tokens_div pbind_Inr preturn_def CheckUp_def parse_chain [OF t])
  then obtain r where r: "ReadBasicExpression 20 (str ''1 + 2 / 10'') (AParser_Init file) = Some r"
    by (cases "ReadBasicExpression 20 (str ''1 + 2 / 10'') (AParser_Init file)") auto
  from fuel_le_Some [OF ReadBasicExpression_fuel r] r run show ?thesis by simp
qed

lemma tokens_pow:
  "ATokenList_ReadString 20 (str ''1 + 2 ^ 10'') ATokenList_Init = Some (Inr
     \<lparr>token_list =
        [\<lparr>AToken.Line = 1, AToken.Column = 1, Value = str ''1'', Type = atoken_NUMBER\<rparr>,
         \<lparr>AToken.Line = 1, AToken.Column = 3, Value = str ''+'', Type = atoken_ADD\<rparr>,
         \<lparr>AToken.Line = 1, AToken.Column = 5, Value = str ''2'', Type = atoken_NUMBER\<rparr>,
         \<lparr>AToken.Line = 1, AToken.Column = 7, Value = str ''^'', Type = atoken_POWER\<rparr>,
         \<lparr>AToken.Line = 1, AToken.Column = 9, Value = str ''10'', Type = atoken_NUMBER\<rparr>,
         \<lparr>AToken.Line = 1, AToken.Column = 12, Value = str ''End'', Type = atoken_EOF\<rparr>],
      ATokenList.Line = 1, ATokenList.Column = 12, Count = 1, Error_list = [],
      current_iterator = Some 0\<rparr>)"
  by (simp add: tok_eval eval_nat_numeral)

lemma read_pow:
  "map_option (map_sum id fst)
     (ReadBasicExpression (20 + k) (str ''1 + 2 ^ 10'') (AParser_Init file))
     = Some (Inr (one_plus_chain aparser_POWER))"
proof -
  have t: "term_operator atoken_POWER = Some aparser_POWER"
    by (simp add: term_operator_def atoken_defs)
  have run: "map_option (map_sum id fst)
     (ReadBasicExpression 20 (str ''1 + 2 ^ 10'') (AParser_Init file))
     = Some (Inr (one_plus_chain aparser_POWER))"
    unfolding ReadBasicExpression_def AToken_ReadString_def AParser_Init_def
    by (simp add: tokens_pow pbind_Inr preturn_def CheckUp_def parse_chain [OF t])
  then obtain r where r: "ReadBasicExpression 20 (str ''1 + 2 ^ 10'') (AParser_Init file) = Some r"
    by (cases "ReadBasicExpression 20 (str ''1 + 2 ^ 10'') (AParser_Init file)") auto
  from fuel_le_Some [OF ReadBasicExpression_fuel r] r run show ?thesis by simp
qed

lemma tokens_mod:
  "ATokenList_ReadString 20 (str ''1 + 2 % 10'') ATokenList_Init = Some (Inr
     \<lparr>token_list =
        [\<lparr>AToken.Line = 1, AToken.Column = 1, Value = str ''1'', Type = atoken_NUMBER\<rparr>,
         \<lparr>AToken.Line = 1, AToken.Column = 3, Value = str ''+'', Type = atoken_ADD\<rparr>,
         \<lparr>AToken.Line = 1, AToken.Column = 5, Value = str ''2'', Type = atoken_NUMBER\<rparr>,
         \<lparr>AToken.Line = 1, AToken.Column = 7, Value = str ''%'', Type = atoken_MOD\<rparr>,
         \<lparr>AToken.Line = 1, AToken.Column = 9, Value = str ''10'', Type = atoken_NUMBER\<rparr>,
         \<lparr>AToken.Line = 1, AToken.Column = 12, Value = str ''End'', Type = atoken_EOF\<rparr>],
      ATokenList.Line = 1, ATokenList.Column = 12, Count = 1, Error_list = [],
      current_iterator = Some 0\<rparr>)"
  by (simp add: tok_eval eval_nat_numeral)

lemma read_mod:
  "map_option (map_sum id fst)
     (ReadBasicExpression (20 + k) (str ''1 + 2 % 10'') (AParser_Init file))
     = Some (Inr (one_plus_chain aparser_MOD))"
proof -
  have t: "term_operator atoken_MOD = Some aparser_MOD"
    by (simp add: term_operator_def atoken_defs)
  have run: "map_option (map_sum id fst)
     (ReadBasicExpression 20 (str ''1 + 2 % 10'') (AParser_Init file))
     = Some (Inr (one_plus_chain aparser_MOD))"
    unfolding ReadBasicExpression_def AToken_ReadString_def AParser_Init_def
    by (simp add: tokens_mod pbind_Inr preturn_def CheckUp_def parse_chain [OF t])
  then obtain r where r: "ReadBasicExpression 20 (str ''1 + 2 % 10'') (AParser_Init file) = Some r"
    by (cases "ReadBasicExpression 20 (str ''1 + 2 % 10'') (AParser_Init file)") auto
  from fuel_le_Some [OF ReadBasicExpression_fuel r] r run show ?thesis by simp
qed

lemma tokens_rand:
  "ATokenList_ReadString 20 (str ''1 + 2 ~ 10'') ATokenList_Init = Some (Inr
     \<lparr>token_list =
        [\<lparr>AToken.Line = 1, AToken.Column = 1, Value = str ''1'', Type = atoken_NUMBER\<rparr>,
         \<lparr>AToken.Line = 1, AToken.Column = 3, Value = str ''+'', Type = atoken_ADD\<rparr>,
         \<lparr>AToken.Line = 1, AToken.Column = 5, Value = str ''2'', Type = atoken_NUMBER\<rparr>,
         \<lparr>AToken.Line = 1, AToken.Column = 7, Value = str ''~'', Type = atoken_RAND\<rparr>,
         \<lparr>AToken.Line = 1, AToken.Column = 9, Value = str ''10'', Type = atoken_NUMBER\<rparr>,
         \<lparr>AToken.Line = 1, AToken.Column = 12, Value = str ''End'', Type = atoken_EOF\<rparr>],
      ATokenList.Line = 1, ATokenList.Column = 12, Count = 1, Error_list = [],
      current_iterator = Some 0\<rparr>)"
  by (simp add: tok_eval eval_nat_numeral)

lemma read_rand:
  "map_option (map_sum id fst)
     (ReadBasicExpression (20 + k) (str ''1 + 2 ~ 10'') (AParser_Init file))
     = Some (Inr (one_plus_chain aparser_RAND))"
proof -
  have t: "term_operator atoken_RAND = Some aparser_RAND"
    by (simp add: term_operator_def atoken_defs)
  have run: "map_option (map_sum id fst)
     (ReadBasicExpression 20 (str ''1 + 2 ~ 10'') (AParser_Init file))
     = Some (Inr (one_plus_chain aparser_RAND))"
    unfolding ReadBasicExpression_def AToken_ReadString_def AParser_Init_def
    by (simp add: tokens_rand pbind_Inr preturn_def CheckUp_def parse_chain [OF t])
  then obtain r where r: "ReadBasicExpression 20 (str ''1 + 2 ~ 10'') (AParser_Init file) = Some r"
    by (cases "ReadBasicExpression 20 (str ''1 + 2 ~ 10'') (AParser_Init file)") auto
  from fuel_le_Some [OF ReadBasicExpression_fuel r] r run show ?thesis by simp
qed

text \<open>
  C2.  Whatever the parser state: when the next token is one of \<open>*\<close>, \<open>/\<close>,
  \<open>^\<close>, \<open>%\<close> and \<open>~\<close>, the loop of \<open>Arithmetic_Expression_Term\<close> takes
  it, parses a factor and chains the rest of the term under the operator's tag, while
  the loop of \<open>Arithmetic_Expression\<close> puts it back and ends its chain; on any
  other token the term loop puts the token back and ends.  So the tokens of
  \<open>1 + 2 op 10\<close>, for each of the five operators, parse to the tree of
  \<open>1 + (2 op 10)\<close>, and reading the source texts \<open>1 + 2 ~ 10\<close>,
  \<open>1 + 2 * 10\<close>, \<open>1 + 2 / 10\<close>, \<open>1 + 2 ^ 10\<close> and \<open>1 + 2 % 10\<close>
  gives these trees on every fuel from 20 on.
\<close>

theorem random_range_parsed_in_term:
  "(GetToken (AToken s) = (Some token, a) \<and> term_operator (Type token) = Some tag \<longrightarrow>
      Arithmetic_Expression_Term_loop (Suc n) vf s =
        pbind (Arithmetic_Expression_Factor n (s\<lparr>AToken := a\<rparr>)) (\<lambda>factor s.
          pbind (Arithmetic_Expression_Term_loop n (Some factor) s) (\<lambda>term s.
            preturn (AST_Arithmetic_Expression_Term tag (Some term) vf) s))
      \<and> Arithmetic_Expression_loop (Suc n) vt s =
        pbind (BackToken_p (s\<lparr>AToken := a\<rparr>)) (\<lambda>_ s.
          preturn (AST_Arithmetic_Expression 0 vt None) s))
   \<and> (GetToken (AToken s) = (Some token, a) \<and> term_operator (Type token) = None \<longrightarrow>
      Arithmetic_Expression_Term_loop (Suc n) vf s =
        pbind (BackToken_p (s\<lparr>AToken := a\<rparr>)) (\<lambda>_ s.
          preturn (AST_Arithmetic_Expression_Term 0 None vf) s))
   \<and> (term_operator t = Some tag \<longrightarrow>
      map_option (map_sum id fst)
        (Arithmetic_Expression (20 + k)
           \<lparr>AToken = \<lparr>token_list =
              [\<lparr>AToken.Line = 1, AToken.Column = 1, Value = str ''1'', Type = atoken_NUMBER\<rparr>,
               \<lparr>AToken.Line = 1, AToken.Column = 3, Value = str ''+'', Type = atoken_ADD\<rparr>,
               \<lparr>AToken.Line = 1, AToken.Column = 5, Value = str ''2'', Type = atoken_NUMBER\<rparr>,
               \<lparr>AToken.Line = 1, AToken.Column = 7, Value = v, Type = t\<rparr>,
               \<lparr>AToken.Line = 1, AToken.Column = 9, Value = str ''10'', Type = atoken_NUMBER\<rparr>,
               \<lparr>AToken.Line = 1, AToken.Column = 12, Value = str ''End'', Type = atoken_EOF\<rparr>],
              ATokenList.Line = 1, ATokenList.Column = 12, Count = 1, Error_list = [],
              current_iterator = Some 0\<rparr>,
            Error_List = [], File = path\<rparr>)
        = Some (Inr (one_plus_chain tag)))
   \<and> map_option (map_sum id fst)
        (ReadBasicExpression (20 + k) (str ''1 + 2 ~ 10'') (AParser_Init path))
       = Some (Inr (one_plus_chain aparser_RAND))
   \<and> map_option (map_sum id fst)
        (ReadBasicExpression (20 + k) (str ''1 + 2 * 10'') (AParser_Init path))
       = Some (Inr (one_plus_chain aparser_MUL))
   \<and> map_option (map_sum id fst)
        (ReadBasicExpression (20 + k) (str ''1 + 2 / 10'') (AParser_Init path))
       = Some (Inr (one_plus_chain aparser_DIV))
   \<and> map_option (map_sum id fst)
        (ReadBasicExpression (20 + k) (str ''1 + 2 ^ 10'') (AParser_Init path))
       = Some (Inr (one_plus_chain aparser_POWER))
   \<and> map_option (map_sum id fst)
        (ReadBasicExpression (20 + k) (str ''1 + 2 % 10'') (AParser_Init path))
       = Some (Inr (one_plus_chain aparser_MOD))"
proof -
  have chain: "map_option (map_sum id fst)
        (Arithmetic_Expression (20 + k)
           \<lparr>AToken = \<lparr>token_list =
              [\<lparr>AToken.Line = 1, AToken.Column = 1, Value = str ''1'', Type = atoken_NUMBER\<rparr>,
               \<lparr>AToken.Line = 1, AToken.Column = 3, Value = str ''+'', Type = atoken_ADD\<rparr>,
               \<lparr>AToken.Line = 1, AToken.Column = 5, Value = str ''2'', Type = atoken_NUMBER\<rparr>,
               \<lparr>AToken.Line = 1, AToken.Column = 7, Value = v, Type = t\<rparr>,
               \<lparr>AToken.Line = 1, AToken.Column = 9, Value = str ''10'', Type = atoken_NUMBER\<rparr>,
               \<lparr>AToken.Line = 1, AToken.Column = 12, Value = str ''End'', Type = atoken_EOF\<rparr>],
              ATokenList.Line = 1, ATokenList.Column = 12, Count = 1, Error_list = [],
              current_iterator = Some 0\<rparr>,
            Error_List = [], File = path\<rparr>)
        = Some (Inr (one_plus_chain tag))" if "term_operator t = Some tag"
  proof -
    let ?s = "\<lparr>AToken = \<lparr>token_list =
              [\<lparr>AToken.Line = 1, AToken.Column = 1, Value = str ''1'', Type = atoken_NUMBER\<rparr>,
               \<lparr>AToken.Line = 1, AToken.Column = 3, Value = str ''+'', Type = atoken_ADD\<rparr>,
               \<lparr>AToken.Line = 1, AToken.Column = 5, Value = str ''2'', Type = atoken_NUMBER\<rparr>,
               \<lparr>AToken.Line = 1, AToken.Column = 7, Value = v, Type = t\<rparr>,
               \<lparr>AToken.Line = 1, AToken.Column = 9, Value = str ''10'', Type = atoken_NUMBER\<rparr>,
               \<lparr>AToken.Line = 1, AToken.Column = 12, Value = str ''End'', Type = atoken_EOF\<rparr>],
              ATokenList.Line = 1, ATokenList.Column = 12, Count = 1, Error_list = [],
              current_iterator = Some 0\<rparr>,
            Error_List = [], File = path\<rparr>"
    from parse_chain [OF that, of v path]
    obtain r where r: "Arithmetic_Expression 20 ?s = Some r"
      and m: "map_sum id fst r = Inr (one_plus_chain tag)"
      by (cases "Arithmetic_Expression 20 ?s") auto
    from fuel_le_Some [OF Arithmetic_Expression_fuel r] m show ?thesis by simp
  qed
  show ?thesis
    using Term_loop_takes_operator [of s token a tag n vf]
      Expression_loop_leaves_operator [of s token a tag n vt]
      Term_loop_leaves_other [of s token a n vf] chain
      read_rand [of k path] read_mul [of k path] read_div [of k path] read_pow [of k path]
      read_mod [of k path]
    by blast
qed

text \<open>
  In the token list of \<open>1 + 2 ~ 10\<close>: with the cursor on \<open>~\<close> the term loop
  builds the chain of \<open>2\<close> and \<open>10\<close> under the tag of \<open>~\<close> and the
  expression loop puts the \<open>~\<close> back; with the cursor on \<open>+\<close> the term loop
  puts the \<open>+\<close> back.
\<close>

theorem random_range_parsed_in_term_witness:
  "Arithmetic_Expression_Term_loop 2 (Some (number_factor (str ''2''))) (chain_example (Some 3) 0) =
     Some (Inr (AST_Arithmetic_Expression_Term aparser_RAND
                  (Some (AST_Arithmetic_Expression_Term 0 None (Some (number_factor (str ''10'')))))
                  (Some (number_factor (str ''2''))),
                chain_example (Some 4) 3))
   \<and> Arithmetic_Expression_loop 2 None (chain_example (Some 3) 0) =
     Some (Inr (AST_Arithmetic_Expression 0 None None, chain_example (Some 3) 1))
   \<and> Arithmetic_Expression_Term_loop 1 (Some (number_factor (str ''1''))) (chain_example (Some 1) 0) =
     Some (Inr (AST_Arithmetic_Expression_Term 0 None (Some (number_factor (str ''1''))),
                chain_example (Some 1) 1))
   \<and> map_option (map_sum id fst) (Arithmetic_Expression 20 (chain_example (Some 0) 0))
       = Some (Inr (one_plus_chain aparser_RAND))"
proof -
  have g3: "GetToken (AToken (chain_example (Some 3) 0)) =
      (Some \<lparr>AToken.Line = 1, AToken.Column = 7, Value = str ''~'', Type = atoken_RAND\<rparr>,
       AToken (chain_example (Some 4) 1))"
    by (simp add: chain_example_def cursor_eval)
  have g1: "GetToken (AToken (chain_example (Some 1) 0)) =
      (Some \<lparr>AToken.Line = 1, AToken.Column = 3, Value = str ''+'', Type = atoken_ADD\<rparr>,
       AToken (chain_example (Some 2) 1))"
    by (simp add: chain_example_def cursor_eval)
  have o3: "term_operator (Type \<lparr>AToken.Line = 1, AToken.Column = 7, Value = str ''~'',
      Type = atoken_RAND\<rparr>) = Some aparser_RAND"
    by (simp add: term_operator_def atoken_defs)
  have o1: "term_operator (Type \<lparr>AToken.Line = 1, AToken.Column = 3, Value = str ''+'',
      Type = atoken_ADD\<rparr>) = None"
    by (simp add: term_operator_def atoken_defs)
  have o: "term_operator atoken_RAND = Some aparser_RAND"
    by (simp add: term_operator_def atoken_defs)
  have u3: "(chain_example (Some 3) 0)\<lparr>AToken := AToken (chain_example (Some 4) 1)\<rparr>
      = chain_example (Some 4) 1"
    and u1: "(chain_example (Some 1) 0)\<lparr>AToken := AToken (chain_example (Some 2) 1)\<rparr>
      = chain_example (Some 2) 1"
    by (simp_all add: chain_example_def)
  note th3 = random_range_parsed_in_term [where s = "chain_example (Some 3) 0"
      and a = "AToken (chain_example (Some 4) 1)" and tag = aparser_RAND and n = "Suc 0"
      and token = "\<lparr>AToken.Line = 1, AToken.Column = 7, Value = str ''~'', Type = atoken_RAND\<rparr>"
      and vf = "Some (number_factor (str ''2''))" and vt = None and t = atoken_RAND and k = 0
      and v = "str ''~''" and path = "[]"]
  note th1 = random_range_parsed_in_term [where s = "chain_example (Some 1) 0"
      and a = "AToken (chain_example (Some 2) 1)" and n = 0
      and token = "\<lparr>AToken.Line = 1, AToken.Column = 3, Value = str ''+'', Type = atoken_ADD\<rparr>"
      and vf = "Some (number_factor (str ''1''))"]
  note step3 = th3 [THEN conjunct1, THEN mp, OF conjI [OF g3 o3], unfolded u3]
  note step1 = th1 [THEN conjunct2, THEN conjunct1, THEN mp, OF conjI [OF g1 o1], unfolded u1]
  have two: "(2::nat) = Suc (Suc 0)" and one: "(1::nat) = Suc 0"
    by simp_all
  have a: "Arithmetic_Expression_Term_loop 2 (Some (number_factor (str ''2''))) (chain_example (Some 3) 0) =
     Some (Inr (AST_Arithmetic_Expression_Term aparser_RAND
                  (Some (AST_Arithmetic_Expression_Term 0 None (Some (number_factor (str ''10'')))))
                  (Some (number_factor (str ''2''))),
                chain_example (Some 4) 3))"
    by (subst two, subst step3 [THEN conjunct1])
       (simp add: chain_example_def number_factor_def parser_eval cursor_eval atoken_defs)
  have b: "Arithmetic_Expression_loop 2 None (chain_example (Some 3) 0) =
     Some (Inr (AST_Arithmetic_Expression 0 None None, chain_example (Some 3) 1))"
    by (subst two, subst step3 [THEN conjunct2])
       (simp add: chain_example_def parser_eval cursor_eval)
  have c: "Arithmetic_Expression_Term_loop 1 (Some (number_factor (str ''1''))) (chain_example (Some 1) 0) =
     Some (Inr (AST_Arithmetic_Expression_Term 0 None (Some (number_factor (str ''1''))),
                chain_example (Some 1) 1))"
    by (subst one, subst step1)
       (simp add: chain_example_def parser_eval cursor_eval)
  have d: "map_option (map_sum id fst) (Arithmetic_Expression 20 (chain_example (Some 0) 0))
       = Some (Inr (one_plus_chain aparser_RAND))"
    using th3 o by (simp add: chain_example_def)
  show ?thesis using a b c d by simp
qed

text \<open>
  C10.  When the cursor is on a \<open>WORD\<close> token and the token after it is none of
  \<open>(\<close>, \<open>=\<close> and \<open>,\<close>, both \<open>Statement\<close> and \<open>BlockStatement_Factor\<close>
  return true with the cursor moved past the two tokens and nothing else changed: the
  error list is as before, and neither procedure has a tree to return.
\<close>

theorem WORD_statement_silent_skip:
  assumes "current_iterator (AToken s) = Some i"
    and "i + 1 < length (token_list (AToken s))"
    and "Type (token_list (AToken s) ! i) = atoken_WORD"
    and "Type (token_list (AToken s) ! (i + 1)) \<notin> {atoken_LP, atoken_ASSIGMENT, atoken_COMMA}"
  shows "Statement fuel s =
           Some (Inr (True, s\<lparr>AToken := (AToken s)
             \<lparr>current_iterator := elem_Next (token_list (AToken s)) (i + 1),
              Count := Count (AToken s) + 3\<rparr>\<rparr>))
         \<and> BlockStatement_Factor (Suc fuel) s =
           Some (Inr (True, s\<lparr>AToken := (AToken s)
             \<lparr>current_iterator := elem_Next (token_list (AToken s)) (i + 1),
              Count := Count (AToken s) + 3\<rparr>\<rparr>))"
proof -
  have peek: "pbind (GetToken_nn s) (\<lambda>token s'. pbind (BackToken_p s') (f token)) =
          f (token_list (AToken s) ! i) (token_list (AToken s) ! i)
            (s\<lparr>AToken := (AToken s)\<lparr>Count := Count (AToken s) + 1,
               current_iterator := Some i\<rparr>\<rparr>)"
    for f :: "AToken \<Rightarrow> AToken \<Rightarrow> AParser \<Rightarrow> bool presult"
    using assms(1,2)
    by (simp add: pbind_def GetToken_nn_def BackToken_p_def GetToken_def BackToken_def
        elem_Next_def elem_Prev_def)
  have word': "WORD_statement fuel (s\<lparr>AToken := (AToken s)\<lparr>Count := Count (AToken s) + 1,
               current_iterator := Some i\<rparr>\<rparr>) =
           Some (Inr ((), s\<lparr>AToken := (AToken s)
             \<lparr>current_iterator := elem_Next (token_list (AToken s)) (i + 1),
              Count := Count (AToken s) + 3\<rparr>\<rparr>))"
    using assms
    by (simp add: WORD_statement_def pbind_def preturn_def GetToken_p_def GetToken_nn_def
        GetToken_def elem_Next_def)
  have s1: "Statement fuel s =
           Some (Inr (True, s\<lparr>AToken := (AToken s)
             \<lparr>current_iterator := elem_Next (token_list (AToken s)) (i + 1),
              Count := Count (AToken s) + 3\<rparr>\<rparr>))"
    unfolding Statement_def peek
    using assms(3) by (simp add: word' atoken_defs pbind_def preturn_def)
  have s2: "BlockStatement_Factor (Suc fuel) s =
           Some (Inr (True, s\<lparr>AToken := (AToken s)
             \<lparr>current_iterator := elem_Next (token_list (AToken s)) (i + 1),
              Count := Count (AToken s) + 3\<rparr>\<rparr>))"
    unfolding BlockStatement_Factor.simps peek
    using assms(3) by (simp add: word' atoken_defs pbind_def preturn_def)
  show ?thesis using s1 s2 by simp
qed

theorem WORD_statement_silent_skip_witness:
  "Statement 0 (skip_example (Some 0) 0) = Some (Inr (True, skip_example (Some 2) 3))
   \<and> BlockStatement_Factor (Suc 0) (skip_example (Some 0) 0)
       = Some (Inr (True, skip_example (Some 2) 3))"
proof -
  have a: "current_iterator (AToken (skip_example (Some 0) 0)) = Some 0"
    and b: "0 + 1 < length (token_list (AToken (skip_example (Some 0) 0)))"
    and c: "Type (token_list (AToken (skip_example (Some 0) 0)) ! 0) = atoken_WORD"
    and d: "Type (token_list (AToken (skip_example (Some 0) 0)) ! (0 + 1))
              \<notin> {atoken_LP, atoken_ASSIGMENT, atoken_COMMA}"
    by (simp_all add: skip_example_def atoken_defs)
  have e: "(skip_example (Some 0) 0)\<lparr>AToken := (AToken (skip_example (Some 0) 0))
             \<lparr>current_iterator := elem_Next (token_list (AToken (skip_example (Some 0) 0))) (0 + 1),
              Count := Count (AToken (skip_example (Some 0) 0)) + 3\<rparr>\<rparr> = skip_example (Some 2) 3"
    by (simp add: skip_example_def elem_Next_def)
  show ?thesis using WORD_statement_silent_skip [OF a b c d, of 0] unfolding e .
qed

end
